theory Spec2Isabelle
  imports Main "HOL-Library.Multiset"
begin

section \<open>Values, rows and cached snapshots\<close>

text \<open>
  A column value of a row. The code under study only compares such values with
  \<^verbatim>\<open>===\<close> / \<^verbatim>\<open>!==\<close> and asks for their \<^verbatim>\<open>typeof\<close>, so a nested object or array is
  kept as its reference (\<open>JObject\<close>): strict equality on objects compares references.
  \<open>JNaN\<close> is kept apart from the other numbers because \<^verbatim>\<open>NaN === NaN\<close> is false; the
  other numbers are only ever tested for equality and stand as integers, as do the row
  counts.
\<close>

datatype jsval =
    JUndefined
  | JNull
  | JBool bool
  | JNum int
  | JNaN
  | JStr string
  | JObject nat

text \<open>A row is an object: its own properties in insertion order, keys unique.\<close>

type_synonym row = "(string \<times> jsval) list"

definition getField :: "row \<Rightarrow> string \<Rightarrow> jsval" where
  \<comment> \<open>\<^verbatim>\<open>row[key]\<close>: a missing property reads as undefined\<close>
  "getField r k = (case map_of r k of None \<Rightarrow> JUndefined | Some v \<Rightarrow> v)"

fun setField :: "string \<Rightarrow> jsval \<Rightarrow> row \<Rightarrow> row" where
  \<comment> \<open>property assignment as an object spread performs it: an existing key keeps its place\<close>
  "setField k v [] = [(k, v)]"
| "setField k v ((k', v') # r) = (if k = k' then (k, v) # r else (k', v') # setField k v r)"

definition strictEq :: "jsval \<Rightarrow> jsval \<Rightarrow> bool" where
  \<comment> \<open>\<^verbatim>\<open>a === b\<close>\<close>
  "strictEq a b = (a \<noteq> JNaN \<and> a = b)"

definition typeof :: "jsval \<Rightarrow> string" where
  "typeof v = (case v of
      JUndefined \<Rightarrow> ''undefined''
    | JNull \<Rightarrow> ''object''
    | JBool _ \<Rightarrow> ''boolean''
    | JNum _ \<Rightarrow> ''number''
    | JNaN \<Rightarrow> ''number''
    | JStr _ \<Rightarrow> ''string''
    | JObject _ \<Rightarrow> ''object'')"

text \<open>\<^verbatim>\<open>SupabaseProviderFetchResult\<close>: \<^verbatim>\<open>{ data: Rows | null, count: number | null }\<close>.\<close>

record fetchResult =
  data :: "row list option"
  count :: "int option"

text \<open>The props of \<^verbatim>\<open>useOptimisticOperations\<close>; the order specification is opaque here.\<close>

record 'o optimisticOperationsProps =
  returnCount :: "string option"
  uniqueIdentifierField :: string
  memoizedOrderBy :: 'o

datatype error =
    ValidationError string
  | MissingRpcName
  | BothOptimisticInputs
  | InvalidOptimisticInput
  | InvalidOptimisticOperation
  | InvalidOperation
  | TypeError

section \<open>The optimistic transforms (useOptimisticOperations.ts)\<close>

text \<open>
  \<^verbatim>\<open>clientSideOrderBy\<close> is imported from a helper module; it is the parameter \<open>cso\<close>
  of every transform that calls it.
\<close>

definition returnUnchangedData :: "fetchResult option \<Rightarrow> fetchResult" where
  "returnUnchangedData currentData =
     (case currentData of
        None \<Rightarrow> \<lparr>data = None, count = None\<rparr>
      | Some cd \<Rightarrow> cd)"

definition addRowOptimistically ::
  "('o \<Rightarrow> row list \<Rightarrow> row list) \<Rightarrow> 'o optimisticOperationsProps
     \<Rightarrow> fetchResult option \<Rightarrow> row \<Rightarrow> fetchResult" where
  "addRowOptimistically cso P currentData optimisticRow =
     (let cd = (case currentData of None \<Rightarrow> \<lparr>data = None, count = None\<rparr> | Some c \<Rightarrow> c)
      in \<lparr>data = Some (cso (memoizedOrderBy P)
                    ((case data cd of None \<Rightarrow> [] | Some rows \<Rightarrow> rows) @ [optimisticRow])),
          count = (if returnCount P \<noteq> Some ''none''
                   then Some ((case count cd of None \<Rightarrow> 0 | Some c \<Rightarrow> c) + 1)
                   else None)\<rparr>)"

definition editRowOptimistically ::
  "('o \<Rightarrow> row list \<Rightarrow> row list) \<Rightarrow> 'o optimisticOperationsProps
     \<Rightarrow> fetchResult option \<Rightarrow> row \<Rightarrow> fetchResult" where
  "editRowOptimistically cso P currentData optimisticRow =
     (case currentData of
        None \<Rightarrow> \<lparr>data = None, count = None\<rparr>
      | Some cd \<Rightarrow>
          \<lparr>data = Some (cso (memoizedOrderBy P)
             (case data cd of
                None \<Rightarrow> []
              | Some rows \<Rightarrow>
                  map (\<lambda>row. if strictEq (getField row (uniqueIdentifierField P))
                                          (getField optimisticRow (uniqueIdentifierField P))
                              then optimisticRow else row) rows)),
           count = count cd\<rparr>)"

definition deleteRowOptimistically ::
  "'o optimisticOperationsProps \<Rightarrow> fetchResult option \<Rightarrow> row \<Rightarrow> error + fetchResult" where
  "deleteRowOptimistically P currentData optimisticRow =
     (case currentData of
        None \<Rightarrow> Inr \<lparr>data = None, count = None\<rparr>
      | Some cd \<Rightarrow>
          (let uniqueIdentifierVal = getField optimisticRow (uniqueIdentifierField P)
           in if typeof uniqueIdentifierVal \<noteq> ''number'' \<and> typeof uniqueIdentifierVal \<noteq> ''string''
              then Inl InvalidOptimisticInput
              else Inr
                \<lparr>data = Some
                   (case data cd of
                      None \<Rightarrow> []
                    | Some rows \<Rightarrow>
                        filter (\<lambda>row. \<not> strictEq (getField row (uniqueIdentifierField P))
                                                 uniqueIdentifierVal) rows),
                 count = (if returnCount P \<noteq> Some ''none''
                          then Some ((case count cd of None \<Rightarrow> 0 | Some c \<Rightarrow> c) - 1)
                          else None)\<rparr>))"

definition replaceDataOptimistically ::
  "fetchResult option \<Rightarrow> row list \<Rightarrow> int option \<Rightarrow> fetchResult" where
  \<comment> \<open>\<^verbatim>\<open>optimisticCount || null\<close>: a count of 0 is falsy and becomes null\<close>
  "replaceDataOptimistically currentData optimisticData optimisticCount =
     \<lparr>data = Some optimisticData,
      count = (case optimisticCount of
                 None \<Rightarrow> None
               | Some c \<Rightarrow> if c = 0 then None else Some c)\<rparr>"

text \<open>
  The function value that \<^verbatim>\<open>chooseOptimisticFunction\<close> returns, named by the function
  it is; the closure of the \<^verbatim>\<open>replaceData\<close> case carries the dataset and count it
  captured.
\<close>

datatype optimisticFunc =
    ReturnUnchangedData
  | AddRowOptimistically
  | EditRowOptimistically
  | DeleteRowOptimistically
  | ReplaceDataClosure "row list" "int option"

definition chooseOptimisticFunction ::
  "string option \<Rightarrow> row option \<Rightarrow> row list option \<Rightarrow> int option \<Rightarrow> error + optimisticFunc" where
  "chooseOptimisticFunction requestedOptimisticOperation optimisticRowFinal
       optimisticDataFinal optimisticCount =
     (case requestedOptimisticOperation of
        None \<Rightarrow> Inr ReturnUnchangedData
      | Some opn \<Rightarrow>
          if opn = ''addRow'' then
            Inr (if optimisticRowFinal \<noteq> None then AddRowOptimistically else ReturnUnchangedData)
          else if opn = ''editRow'' then
            Inr (if optimisticRowFinal \<noteq> None then EditRowOptimistically else ReturnUnchangedData)
          else if opn = ''deleteRow'' then
            Inr (if optimisticRowFinal \<noteq> None then DeleteRowOptimistically else ReturnUnchangedData)
          else if opn = ''replaceData'' then
            Inr (case optimisticDataFinal of
                   Some rows \<Rightarrow> ReplaceDataClosure rows optimisticCount
                 | None \<Rightarrow> ReturnUnchangedData)
          else Inl InvalidOptimisticOperation)"

text \<open>
  The call \<^verbatim>\<open>optimisticFunc(currentData, optimisticRowFinal || undefined)\<close> that the
  cache makes through the \<^verbatim>\<open>optimisticData\<close> option. The three row transforms read
  properties of their second argument, so an undefined row is a \<^verbatim>\<open>TypeError\<close> in
  edit and delete once a snapshot is present; add would append the undefined value,
  which is outside the type of rows and is reported the same way here. Lemma
  \<open>row_transform_has_row\<close> below shows the selection never pairs these three with an
  undefined row.
\<close>

definition callOptimisticFunc ::
  "('o \<Rightarrow> row list \<Rightarrow> row list) \<Rightarrow> 'o optimisticOperationsProps \<Rightarrow> optimisticFunc
     \<Rightarrow> fetchResult option \<Rightarrow> row option \<Rightarrow> error + fetchResult" where
  "callOptimisticFunc cso P f currentData optimisticRowFinal =
     (case f of
        ReturnUnchangedData \<Rightarrow> Inr (returnUnchangedData currentData)
      | ReplaceDataClosure rows c \<Rightarrow> Inr (replaceDataOptimistically currentData rows c)
      | AddRowOptimistically \<Rightarrow>
          (case optimisticRowFinal of
             Some r \<Rightarrow> Inr (addRowOptimistically cso P currentData r)
           | None \<Rightarrow> Inl TypeError)
      | EditRowOptimistically \<Rightarrow>
          (case optimisticRowFinal of
             Some r \<Rightarrow> Inr (editRowOptimistically cso P currentData r)
           | None \<Rightarrow> Inl TypeError)
      | DeleteRowOptimistically \<Rightarrow>
          (case optimisticRowFinal of
             Some r \<Rightarrow> deleteRowOptimistically P currentData r
           | None \<Rightarrow> Inl TypeError))"

section \<open>handleMutation (useMutationWithOptimisticUpdates.ts)\<close>

text \<open>\<^verbatim>\<open>Row | Rows\<close>, the type of \<^verbatim>\<open>dataForSupabase\<close> and of \<^verbatim>\<open>optimisticData\<close>.\<close>

datatype rowOrRows = OneRow row | ManyRows "row list"

record flexSettings =
  tableName :: string
  operation :: string
  filters :: "row list option"
  optimisticOperation :: "string option"

record rpcSettingsRec =
  rpcName :: string
  rpc_optimisticOperation :: "string option"

record handleMutationArgs =
  mutationType :: string
  dataForSupabase :: "rowOrRows option"
  shouldReturnRow :: bool
  returnImmediately :: bool
  optimisticRow :: "row option"
  optimisticData :: "rowOrRows option"
  optimisticCount :: "int option"
  customMetadata :: "row option"
  flexibleMutationSettings :: "flexSettings option"
  rpcSettings :: "rpcSettingsRec option"

record mutationPhrases =
  inProgress :: string
  success :: string
  error :: string

text \<open>The argument object of \<^verbatim>\<open>buildSupabaseProviderError\<close>.\<close>

record providerErrorArgs =
  e_error :: jsval
  e_actionAttempted :: string
  e_summary :: string
  e_dataForSupabase :: "rowOrRows option"
  e_optimisticData :: "rowOrRows option"
  e_customMetadata :: "row option"

text \<open>\<^verbatim>\<open>SupabaseProviderMutateResult\<close>, the envelope; \<open>'e\<close> is the built error object.\<close>

record 'e mutateResult =
  r_data :: "row list option"
  r_count :: "int option"
  r_optimisticData :: "rowOrRows option"
  r_optimisticCount :: "int option"
  r_dataForSupabase :: "rowOrRows option"
  r_action :: string
  r_summary :: string
  r_status :: string
  r_error :: "'e option"
  r_customMetadata :: "row option"

text \<open>
  What the hook closes over and imports: the two validators (they throw or return;
  \<open>Some msg\<close> is a throw), the phrase lookup, the error builder, and the two callbacks.
  A callback is unset (\<open>None\<close>) or a function of the value it receives that returns
  normally (\<open>None\<close>) or throws (\<open>Some v\<close>, \<open>v\<close> the value thrown). The helpers live in
  modules outside the files at hand, so they are parameters. The phrase lookup, the
  error builder, \<^verbatim>\<open>uuid\<close>, the state setter, the backend mutators and \<^verbatim>\<open>mutate\<close> are
  taken to return normally.
\<close>

record 'e hookEnv =
  validateFlexibleMutationSettings ::
    "string option \<Rightarrow> string option \<Rightarrow> rowOrRows option \<Rightarrow> row list option \<Rightarrow> string option"
  validateDynamicOptimisticSettings :: "rowOrRows option \<Rightarrow> string option \<Rightarrow> string option"
  getMutationPhrases :: "string \<Rightarrow> mutationPhrases"
  buildSupabaseProviderError :: "providerErrorArgs \<Rightarrow> 'e"
  memoizedOnMutateSuccess :: "('e mutateResult \<Rightarrow> jsval option) option"
  memoizedOnError :: "('e \<Rightarrow> jsval option) option"

text \<open>How the promise returned by the cache's \<^verbatim>\<open>mutate\<close> ends.\<close>

datatype mutateOutcome =
    MutateFulfils "fetchResult option"
  | MutateRejects jsval
  | MutateNeverSettles

datatype mutatorFunction =
    AddRowMutator
  | EditRowMutator
  | DeleteRowMutator
  | CreateFlexibleMutator
  | CreateRpcMutator

text \<open>A call of a backend mutator, with the arguments it receives.\<close>

datatype mutatorCall =
    AddRowMutatorCall "rowOrRows option" bool
  | EditRowMutatorCall "rowOrRows option" bool
  | DeleteRowMutatorCall "rowOrRows option" bool
  | FlexibleMutatorCall string string "rowOrRows option" "row list option" bool
  | RunRpcCall string "rowOrRows option"

text \<open>
  The options object handed to \<^verbatim>\<open>mutate\<close>. Its \<^verbatim>\<open>optimisticData\<close> closure is
  \<^verbatim>\<open>(currentData) => optimisticFunc(currentData, optimisticRowFinal || undefined)\<close>:
  the chosen function and the row it captured.
\<close>

record mutateOptions =
  o_optimisticFunc :: optimisticFunc
  o_optimisticRowFinal :: "row option"
  o_populateCache :: bool
  o_revalidate :: bool
  o_rollbackOnError :: bool

text \<open>
  The observable steps of one call, in the order the code performs them. \<open>Throw\<close> is an
  exception of the promise executor; \<open>Unhandled\<close> is an exception that leaves the
  \<^verbatim>\<open>.catch\<close> handler, which rejects the promise of the handler chain, not the caller's.
\<close>

datatype 'e event =
    SetIsMutating bool
  | Resolve "'e mutateResult"
  | Throw error
  | CallMutator mutatorCall
  | CallMutate mutateOptions
  | OnMutateSuccess "'e mutateResult"
  | OnError 'e
  | Unhandled jsval

record 'e run =
  trace :: "'e event list"
  flexibleMutationSettingsAfter :: "flexSettings option"
  rpcSettingsAfter :: "rpcSettingsRec option"

text \<open>
  The promise built by \<^verbatim>\<open>new Promise((resolve) => ...)\<close>: the first \<^verbatim>\<open>resolve\<close> call
  or the first exception of the executor settles it, later ones are ignored.
\<close>

datatype 'e promiseState = Unsettled | Fulfilled "'e mutateResult" | Rejected error

fun promiseStep :: "'e promiseState \<Rightarrow> 'e event \<Rightarrow> 'e promiseState" where
  "promiseStep Unsettled (Resolve v) = Fulfilled v"
| "promiseStep Unsettled (Throw e) = Rejected e"
| "promiseStep s _ = s"

definition promiseOf :: "'e event list \<Rightarrow> 'e promiseState" where
  "promiseOf t = foldl promiseStep Unsettled t"

definition emptyToUndefined :: "string option \<Rightarrow> string option" where
  \<comment> \<open>lines 137-142\<close>
  "emptyToUndefined s = (if s = Some '''' then None else s)"

definition clearEmptyFlexible :: "flexSettings option \<Rightarrow> flexSettings option" where
  \<comment> \<open>lines 137-139: the settings object after the assignment\<close>
  "clearEmptyFlexible fs =
     map_option (\<lambda>s. s\<lparr>optimisticOperation := emptyToUndefined (optimisticOperation s)\<rparr>) fs"

definition clearEmptyRpc :: "rpcSettingsRec option \<Rightarrow> rpcSettingsRec option" where
  \<comment> \<open>lines 140-142\<close>
  "clearEmptyRpc rs =
     map_option
       (\<lambda>s. s\<lparr>rpc_optimisticOperation := emptyToUndefined (rpc_optimisticOperation s)\<rparr>) rs"

definition validateSettings ::
  "'e hookEnv \<Rightarrow> handleMutationArgs \<Rightarrow> flexSettings option \<Rightarrow> rpcSettingsRec option
     \<Rightarrow> error option" where
  \<comment> \<open>lines 145-166; \<open>Some e\<close> is the exception thrown\<close>
  "validateSettings H a fms rpc =
     (let flexible =
        (if mutationType a = ''flexibleMutation'' then
           (case validateFlexibleMutationSettings H (map_option tableName fms)
                   (map_option operation fms) (dataForSupabase a)
                   (case fms of None \<Rightarrow> None | Some s \<Rightarrow> filters s) of
              Some msg \<Rightarrow> Some (ValidationError msg)
            | None \<Rightarrow>
                (case validateDynamicOptimisticSettings H (optimisticData a)
                        (case fms of None \<Rightarrow> None | Some s \<Rightarrow> optimisticOperation s) of
                   Some msg \<Rightarrow> Some (ValidationError msg)
                 | None \<Rightarrow> None))
         else None)
      in case flexible of
           Some e \<Rightarrow> Some e
         | None \<Rightarrow>
             if mutationType a = ''rpc'' then
               (case rpc of
                  None \<Rightarrow> Some MissingRpcName
                | Some rs \<Rightarrow>
                    if rpcName rs = '''' then Some MissingRpcName
                    else (case validateDynamicOptimisticSettings H (optimisticData a)
                                 (rpc_optimisticOperation rs) of
                            Some msg \<Rightarrow> Some (ValidationError msg)
                          | None \<Rightarrow> None))
             else None)"

definition stampOptimistic :: "string \<Rightarrow> row \<Rightarrow> row" where
  \<comment> \<open>\<^verbatim>\<open>{ ...row, optimisticId: uuid(), isOptimistic: true }\<close>\<close>
  "stampOptimistic u r =
     setField ''isOptimistic'' (JBool True) (setField ''optimisticId'' (JStr u) r)"

definition materialize ::
  "string \<Rightarrow> row option \<Rightarrow> rowOrRows option \<Rightarrow> row option \<times> row list option" where
  \<comment> \<open>lines 181-206: \<open>(optimisticRowFinal, optimisticDataFinal)\<close>\<close>
  "materialize u optRow optData =
     (let optimisticRowFinal = map_option (stampOptimistic u) optRow
      in case optData of
           Some (OneRow d) \<Rightarrow> (Some (stampOptimistic u d), None)
         | Some (ManyRows rs) \<Rightarrow> (optimisticRowFinal, Some rs)
         | None \<Rightarrow> (optimisticRowFinal, None))"

definition echoOptimistic :: "row option \<Rightarrow> row list option \<Rightarrow> rowOrRows option" where
  \<comment> \<open>\<^verbatim>\<open>optimisticRowFinal || optimisticDataFinal || null\<close>\<close>
  "echoOptimistic optimisticRowFinal optimisticDataFinal =
     (case optimisticRowFinal of
        Some r \<Rightarrow> Some (OneRow r)
      | None \<Rightarrow> (case optimisticDataFinal of Some rs \<Rightarrow> Some (ManyRows rs) | None \<Rightarrow> None))"

definition orNull :: "int option \<Rightarrow> int option" where
  \<comment> \<open>\<^verbatim>\<open>optimisticCount || null\<close>\<close>
  "orNull c = (case c of None \<Rightarrow> None | Some n \<Rightarrow> if n = 0 then None else Some n)"

definition selectFunctions ::
  "string \<Rightarrow> string option \<Rightarrow> string option \<Rightarrow> row option \<Rightarrow> row list option \<Rightarrow> int option
     \<Rightarrow> error + (mutatorFunction \<times> optimisticFunc)" where
  \<comment> \<open>the switch of lines 264-311; the two requested operations are those of the
      flexible and of the rpc settings\<close>
  "selectFunctions mt flexOp rpcOp optimisticRowFinal optimisticDataFinal optCount =
     (if mt = ''insert'' then
        Inr (AddRowMutator,
             if optimisticRowFinal \<noteq> None then AddRowOptimistically else ReturnUnchangedData)
      else if mt = ''update'' then
        Inr (EditRowMutator,
             if optimisticRowFinal \<noteq> None then EditRowOptimistically else ReturnUnchangedData)
      else if mt = ''delete'' then
        Inr (DeleteRowMutator,
             if optimisticRowFinal \<noteq> None then DeleteRowOptimistically else ReturnUnchangedData)
      else if mt = ''flexibleMutation'' then
        (case chooseOptimisticFunction flexOp optimisticRowFinal optimisticDataFinal optCount of
           Inl e \<Rightarrow> Inl e
         | Inr f \<Rightarrow> Inr (CreateFlexibleMutator, f))
      else if mt = ''rpc'' then
        (case chooseOptimisticFunction rpcOp optimisticRowFinal optimisticDataFinal optCount of
           Inl e \<Rightarrow> Inl e
         | Inr f \<Rightarrow> Inr (CreateRpcMutator, f))
      else Inl InvalidOperation)"

definition callMutatorFunction ::
  "mutatorFunction \<Rightarrow> flexSettings option \<Rightarrow> rpcSettingsRec option \<Rightarrow> rowOrRows option
     \<Rightarrow> bool \<Rightarrow> error + mutatorCall" where
  \<comment> \<open>\<^verbatim>\<open>mutatorFunction({ dataForSupabase, shouldReturnRow })\<close>, line 314; the
      non-null assertions of lines 238-255 are property reads of a possibly undefined
      settings object\<close>
  "callMutatorFunction m fms rpc dfs srr =
     (case m of
        AddRowMutator \<Rightarrow> Inr (AddRowMutatorCall dfs srr)
      | EditRowMutator \<Rightarrow> Inr (EditRowMutatorCall dfs srr)
      | DeleteRowMutator \<Rightarrow> Inr (DeleteRowMutatorCall dfs srr)
      | CreateFlexibleMutator \<Rightarrow>
          (case fms of
             None \<Rightarrow> Inl TypeError
           | Some s \<Rightarrow> Inr (FlexibleMutatorCall (tableName s) (operation s) dfs (filters s) srr))
      | CreateRpcMutator \<Rightarrow>
          (case rpc of
             None \<Rightarrow> Inl TypeError
           | Some rs \<Rightarrow> Inr (RunRpcCall (rpcName rs) dfs)))"

definition baseResult ::
  "handleMutationArgs \<Rightarrow> row option \<Rightarrow> row list option \<Rightarrow> 'e mutateResult" where
  \<comment> \<open>the fields the three envelopes fill alike; summary and status are set by each\<close>
  "baseResult a optimisticRowFinal optimisticDataFinal =
     \<lparr>r_data = None, r_count = None,
      r_optimisticData = echoOptimistic optimisticRowFinal optimisticDataFinal,
      r_optimisticCount = orNull (optimisticCount a),
      r_dataForSupabase = dataForSupabase a,
      r_action = mutationType a,
      r_summary = [],
      r_status = [],
      r_error = None,
      r_customMetadata = customMetadata a\<rparr>"

definition pendingResult ::
  "mutationPhrases \<Rightarrow> handleMutationArgs \<Rightarrow> row option \<Rightarrow> row list option \<Rightarrow> 'e mutateResult" where
  \<comment> \<open>lines 211-222\<close>
  "pendingResult ph a rf df =
     (baseResult a rf df)\<lparr>r_summary := inProgress ph, r_status := ''pending''\<rparr>"

definition successResult ::
  "mutationPhrases \<Rightarrow> handleMutationArgs \<Rightarrow> row option \<Rightarrow> row list option
     \<Rightarrow> fetchResult option \<Rightarrow> 'e mutateResult" where
  \<comment> \<open>lines 330-341\<close>
  "successResult ph a rf df response =
     (baseResult a rf df)
       \<lparr>r_data := (case response of None \<Rightarrow> None | Some r \<Rightarrow> data r),
        r_count := (case response of None \<Rightarrow> None | Some r \<Rightarrow> count r),
        r_summary := success ph, r_status := ''success''\<rparr>"

definition providerError ::
  "'e hookEnv \<Rightarrow> mutationPhrases \<Rightarrow> handleMutationArgs \<Rightarrow> row option \<Rightarrow> row list option
     \<Rightarrow> jsval \<Rightarrow> 'e" where
  \<comment> \<open>lines 352-359\<close>
  "providerError H ph a rf df err =
     buildSupabaseProviderError H
       \<lparr>e_error = err,
        e_actionAttempted = mutationType a,
        e_summary = error ph,
        e_dataForSupabase = dataForSupabase a,
        e_optimisticData = echoOptimistic rf df,
        e_customMetadata = customMetadata a\<rparr>"

definition errorResult ::
  "mutationPhrases \<Rightarrow> handleMutationArgs \<Rightarrow> row option \<Rightarrow> row list option \<Rightarrow> 'e
     \<Rightarrow> 'e mutateResult" where
  \<comment> \<open>lines 366-377\<close>
  "errorResult ph a rf df perr =
     (baseResult a rf df)
       \<lparr>r_summary := error ph, r_status := ''error'', r_error := Some perr\<rparr>"

definition catchHandler ::
  "'e hookEnv \<Rightarrow> mutationPhrases \<Rightarrow> handleMutationArgs \<Rightarrow> row option \<Rightarrow> row list option
     \<Rightarrow> jsval \<Rightarrow> 'e event list" where
  \<comment> \<open>the \<^verbatim>\<open>.catch\<close> handler, lines 351-380; an exception of the error callback leaves
      the handler before \<^verbatim>\<open>resolve\<close> is reached\<close>
  "catchHandler H ph a rf df err =
     (let supabaseProviderError = providerError H ph a rf df err;
          resolved = (if \<not> returnImmediately a
                      then [Resolve (errorResult ph a rf df supabaseProviderError)] else [])
      in case memoizedOnError H of
           None \<Rightarrow> resolved
         | Some onError \<Rightarrow>
             OnError supabaseProviderError #
               (case onError supabaseProviderError of
                  Some thrown \<Rightarrow> [Unhandled thrown]
                | None \<Rightarrow> resolved))"

definition settle ::
  "'e hookEnv \<Rightarrow> mutationPhrases \<Rightarrow> handleMutationArgs \<Rightarrow> row option \<Rightarrow> row list option
     \<Rightarrow> mutateOutcome \<Rightarrow> 'e event list" where
  \<comment> \<open>\<^verbatim>\<open>.then(...).catch(...)\<close>, lines 329-380: the catch handler runs when \<^verbatim>\<open>mutate\<close>
      rejects and also when the then handler throws, which it does when the success
      callback throws\<close>
  "settle H ph a rf df outcome =
     (case outcome of
        MutateFulfils response \<Rightarrow>
          (let result = successResult ph a rf df response;
               resolved = (if \<not> returnImmediately a then [Resolve result] else [])
           in case memoizedOnMutateSuccess H of
                None \<Rightarrow> resolved
              | Some onSuccess \<Rightarrow>
                  OnMutateSuccess result #
                    (case onSuccess result of
                       Some thrown \<Rightarrow> catchHandler H ph a rf df thrown
                     | None \<Rightarrow> resolved))
      | MutateRejects err \<Rightarrow> catchHandler H ph a rf df err
      | MutateNeverSettles \<Rightarrow> [])"

definition resolveImmediately ::
  "mutationPhrases \<Rightarrow> handleMutationArgs \<Rightarrow> row option \<Rightarrow> row list option
     \<Rightarrow> 'e event list" where
  \<comment> \<open>lines 208-224\<close>
  "resolveImmediately ph a rf df =
     (if returnImmediately a then [Resolve (pendingResult ph a rf df)] else [])"

definition runMutation ::
  "'e hookEnv \<Rightarrow> mutationPhrases \<Rightarrow> flexSettings option \<Rightarrow> rpcSettingsRec option
     \<Rightarrow> handleMutationArgs \<Rightarrow> row option \<Rightarrow> row list option \<Rightarrow> mutateOutcome
     \<Rightarrow> 'e event list" where
  \<comment> \<open>lines 260-380: the switch, then \<^verbatim>\<open>mutate(mutatorFunction(...), options)\<close>, whose
      argument is evaluated before \<^verbatim>\<open>mutate\<close> is entered, then the two handlers\<close>
  "runMutation H ph fms rpc a optimisticRowFinal optimisticDataFinal outcome =
     (case selectFunctions (mutationType a)
             (case fms of None \<Rightarrow> None | Some s \<Rightarrow> optimisticOperation s)
             (case rpc of None \<Rightarrow> None | Some s \<Rightarrow> rpc_optimisticOperation s)
             optimisticRowFinal optimisticDataFinal (optimisticCount a) of
        Inl e \<Rightarrow> [Throw e]
      | Inr (mutatorFunction, optimisticFunc) \<Rightarrow>
          (case callMutatorFunction mutatorFunction fms rpc
                  (dataForSupabase a) (shouldReturnRow a) of
             Inl e \<Rightarrow> [Throw e]
           | Inr call \<Rightarrow>
               [CallMutator call,
                CallMutate \<lparr>o_optimisticFunc = optimisticFunc,
                            o_optimisticRowFinal = optimisticRowFinal,
                            o_populateCache = False,
                            o_revalidate = True,
                            o_rollbackOnError = True\<rparr>]
               @ settle H ph a optimisticRowFinal optimisticDataFinal outcome))"

definition handleMutation ::
  "'e hookEnv \<Rightarrow> string \<Rightarrow> mutateOutcome \<Rightarrow> handleMutationArgs \<Rightarrow> 'e run" where
  \<comment> \<open>\<open>uuid\<close> is the token \<^verbatim>\<open>uuid()\<close> returns in this call, \<open>outcome\<close> how the promise of
      \<^verbatim>\<open>mutate\<close> ends\<close>
  "handleMutation H uuid outcome a =
     (let fms = clearEmptyFlexible (flexibleMutationSettings a);
          rpc = clearEmptyRpc (rpcSettings a);
          finish = (\<lambda>t. \<lparr>trace = SetIsMutating True # t,
                          flexibleMutationSettingsAfter = fms, rpcSettingsAfter = rpc\<rparr>)
      in case validateSettings H a fms rpc of
           Some e \<Rightarrow> finish [Throw e]
         | None \<Rightarrow>
             (let mutationPhrases = getMutationPhrases H (mutationType a)
              in if optimisticRow a \<noteq> None \<and> optimisticData a \<noteq> None
                 then finish [Throw BothOptimisticInputs]
                 else
                   (let (optimisticRowFinal, optimisticDataFinal) =
                          materialize uuid (optimisticRow a) (optimisticData a)
                    in finish
                         (resolveImmediately mutationPhrases a
                              optimisticRowFinal optimisticDataFinal
                          @ runMutation H mutationPhrases fms rpc a
                              optimisticRowFinal optimisticDataFinal outcome))))"

section \<open>Vocabulary of the properties\<close>

text \<open>
  The rows a snapshot holds, an absent snapshot and null data read as no rows
  (\<^verbatim>\<open>currentData.data || []\<close>), and its count, null read as 0
  (\<^verbatim>\<open>currentData.count || 0\<close>).
\<close>

definition existingRows :: "fetchResult option \<Rightarrow> row list" where
  "existingRows currentData =
     (case currentData of
        None \<Rightarrow> []
      | Some cd \<Rightarrow> (case data cd of None \<Rightarrow> [] | Some rows \<Rightarrow> rows))"

definition priorCount :: "fetchResult option \<Rightarrow> int" where
  "priorCount currentData =
     (case currentData of
        None \<Rightarrow> 0
      | Some cd \<Rightarrow> (case count cd of None \<Rightarrow> 0 | Some c \<Rightarrow> c))"

text \<open>
  The error taxonomy: configuration errors are the caller's mistakes found before any
  asynchronous work; an invalid speculative input is found by a transform when it is
  applied.
\<close>

definition isConfigurationError :: "error \<Rightarrow> bool" where
  "isConfigurationError e =
     (case e of
        ValidationError _ \<Rightarrow> True
      | MissingRpcName \<Rightarrow> True
      | BothOptimisticInputs \<Rightarrow> True
      | InvalidOptimisticOperation \<Rightarrow> True
      | InvalidOperation \<Rightarrow> True
      | InvalidOptimisticInput \<Rightarrow> False
      | TypeError \<Rightarrow> False)"

definition isResolve :: "'e event \<Rightarrow> bool" where
  "isResolve ev = (case ev of Resolve _ \<Rightarrow> True | _ \<Rightarrow> False)"

definition isThrow :: "'e event \<Rightarrow> bool" where
  "isThrow ev = (case ev of Throw _ \<Rightarrow> True | _ \<Rightarrow> False)"

definition isBackendOrCache :: "'e event \<Rightarrow> bool" where
  "isBackendOrCache ev = (case ev of CallMutator _ \<Rightarrow> True | CallMutate _ \<Rightarrow> True | _ \<Rightarrow> False)"

text \<open>
  The speculative inputs a call goes on with once the checks of lines 145-178 are
  passed, the optimistic operation it requests, and what passing those checks means.
\<close>

definition rowFinal :: "string \<Rightarrow> handleMutationArgs \<Rightarrow> row option" where
  "rowFinal u a = fst (materialize u (optimisticRow a) (optimisticData a))"

definition dataFinal :: "string \<Rightarrow> handleMutationArgs \<Rightarrow> row list option" where
  "dataFinal u a = snd (materialize u (optimisticRow a) (optimisticData a))"


definition dispatch :: "string \<Rightarrow> handleMutationArgs \<Rightarrow> error + (mutatorCall \<times> optimisticFunc)" where
  \<comment> \<open>what lines 260-314 arrive at from the call's inputs: the exception of the switch
      or of the mutator call, or the mutator call made and the function chosen\<close>
  "dispatch u a =
     (case selectFunctions (mutationType a)
             (case clearEmptyFlexible (flexibleMutationSettings a) of
                None \<Rightarrow> None | Some s \<Rightarrow> optimisticOperation s)
             (case clearEmptyRpc (rpcSettings a) of
                None \<Rightarrow> None | Some s \<Rightarrow> rpc_optimisticOperation s)
             (rowFinal u a) (dataFinal u a) (optimisticCount a) of
        Inl e \<Rightarrow> Inl e
      | Inr (m, f) \<Rightarrow>
          (case callMutatorFunction m (clearEmptyFlexible (flexibleMutationSettings a))
                  (clearEmptyRpc (rpcSettings a)) (dataForSupabase a) (shouldReturnRow a) of
             Inl e \<Rightarrow> Inl e
           | Inr call \<Rightarrow> Inr (call, f)))"

definition callbackReturns :: "('x \<Rightarrow> jsval option) option \<Rightarrow> 'x \<Rightarrow> bool" where
  \<comment> \<open>the callback is unset, or returns normally on this value\<close>
  "callbackReturns cb x = (case cb of None \<Rightarrow> True | Some g \<Rightarrow> g x = None)"

definition callbackEvent :: "('x \<Rightarrow> jsval option) option \<Rightarrow> 'ev \<Rightarrow> 'ev list" where
  \<comment> \<open>the step of calling a callback, when it is set\<close>
  "callbackEvent cb ev = (case cb of None \<Rightarrow> [] | Some _ \<Rightarrow> [ev])"

definition passesChecks :: "'e hookEnv \<Rightarrow> handleMutationArgs \<Rightarrow> bool" where
  "passesChecks H a =
     (validateSettings H a (clearEmptyFlexible (flexibleMutationSettings a))
          (clearEmptyRpc (rpcSettings a)) = None
      \<and> (optimisticRow a = None \<or> optimisticData a = None))"

text \<open>
  The three envelopes, the built error object and the options object of a call, as
  functions of the call's inputs.
\<close>

definition pendingOf :: "'e hookEnv \<Rightarrow> string \<Rightarrow> handleMutationArgs \<Rightarrow> 'e mutateResult" where
  "pendingOf H u a =
     pendingResult (getMutationPhrases H (mutationType a)) a (rowFinal u a) (dataFinal u a)"


definition builtError :: "'e hookEnv \<Rightarrow> string \<Rightarrow> handleMutationArgs \<Rightarrow> jsval \<Rightarrow> 'e" where
  "builtError H u a err =
     providerError H (getMutationPhrases H (mutationType a)) a (rowFinal u a) (dataFinal u a) err"

definition errorOf :: "'e hookEnv \<Rightarrow> string \<Rightarrow> handleMutationArgs \<Rightarrow> jsval \<Rightarrow> 'e mutateResult" where
  "errorOf H u a err =
     errorResult (getMutationPhrases H (mutationType a)) a (rowFinal u a) (dataFinal u a)
       (builtError H u a err)"

definition optionsOf :: "string \<Rightarrow> handleMutationArgs \<Rightarrow> optimisticFunc \<Rightarrow> mutateOptions" where
  "optionsOf u a f =
     \<lparr>o_optimisticFunc = f, o_optimisticRowFinal = rowFinal u a,
      o_populateCache = False, o_revalidate = True, o_rollbackOnError = True\<rparr>"

text \<open>
  One order function to run the transforms on concrete rows: ascending by a numeric
  column, stable; the order specification is the column name.
\<close>

definition sortByNumber :: "string \<Rightarrow> row list \<Rightarrow> row list" where
  "sortByNumber col rows = sort_key (\<lambda>r. case getField r col of JNum n \<Rightarrow> n | _ \<Rightarrow> 0) rows"

text \<open>
  A hook environment and a call to run \<open>handleMutation\<close> on: validators that accept
  everything, both callbacks set and returning normally, the error object being the
  builder's argument; and the same environment with an error callback that throws.
\<close>

definition scenarioEnv :: "providerErrorArgs hookEnv" where
  "scenarioEnv =
     \<lparr>validateFlexibleMutationSettings = (\<lambda>_ _ _ _. None),
      validateDynamicOptimisticSettings = (\<lambda>_ _. None),
      getMutationPhrases =
        (\<lambda>mt. \<lparr>inProgress = ''in progress'', success = ''done'', error = ''failed''\<rparr>),
      buildSupabaseProviderError = (\<lambda>x. x),
      memoizedOnMutateSuccess = Some (\<lambda>_. None),
      memoizedOnError = Some (\<lambda>_. None)\<rparr>"

definition throwingEnv :: "providerErrorArgs hookEnv" where
  "throwingEnv = scenarioEnv\<lparr>memoizedOnError := Some (\<lambda>_. Some (JStr ''handler failed''))\<rparr>"

definition scenarioArgs :: handleMutationArgs where
  "scenarioArgs =
     \<lparr>mutationType = ''delete'',
      dataForSupabase = Some (OneRow [(''id'', JNum 5)]),
      shouldReturnRow = False,
      returnImmediately = False,
      optimisticRow = None,
      optimisticData = None,
      optimisticCount = None,
      customMetadata = None,
      flexibleMutationSettings = None,
      rpcSettings = None\<rparr>"

section \<open>The transforms\<close>

lemma getField_setField:
  "getField (setField k v r) k' = (if k' = k then v else getField r k')"
  by (induction r) (auto simp: getField_def)

lemma getField_stamp:
  "getField (stampOptimistic u r) k =
     (if k = ''isOptimistic'' then JBool True
      else if k = ''optimisticId'' then JStr u else getField r k)"
  by (simp add: stampOptimistic_def getField_setField)

lemma add_eq:
  "addRowOptimistically cso P currentData newRow =
     \<lparr>data = Some (cso (memoizedOrderBy P) (existingRows currentData @ [newRow])),
      count = (if returnCount P = Some ''none'' then None
               else Some (priorCount currentData + 1))\<rparr>"
  by (simp add: addRowOptimistically_def existingRows_def priorCount_def Let_def
           split: option.splits)

text \<open>
  C1. The insert transform returns, for every snapshot (absent or not) and every
  speculative row, the client-side sort of the existing rows with the speculative row
  appended, and the prior count plus 1, or null when \<open>returnCount\<close> is \<^verbatim>\<open>"none"\<close>. When
  the order function permutes its input, the result has one row more and the new row
  occurs once more than before: exactly once when it was not among the existing rows,
  as is the case for a row stamped with a token that no existing row carries.
\<close>

theorem insert_sorted_append_count:
  "addRowOptimistically cso P currentData newRow =
     \<lparr>data = Some (cso (memoizedOrderBy P) (existingRows currentData @ [newRow])),
      count = (if returnCount P = Some ''none'' then None
               else Some (priorCount currentData + 1))\<rparr>
   \<and> ((\<forall>xs. mset (cso (memoizedOrderBy P) xs) = mset xs) \<longrightarrow>
        (\<exists>rows. data (addRowOptimistically cso P currentData newRow) = Some rows
           \<and> length rows = length (existingRows currentData) + 1
           \<and> count_list rows newRow
               = count_list (existingRows currentData) newRow + 1
           \<and> (newRow \<notin> set (existingRows currentData)
                \<longrightarrow> count_list rows newRow = 1)
           \<and> (newRow = stampOptimistic u r
                \<and> (\<forall>old \<in> set (existingRows currentData).
                       getField old ''optimisticId'' \<noteq> JStr u)
                \<longrightarrow> count_list rows newRow = 1)))"
proof (intro conjI impI)
  show "addRowOptimistically cso P currentData newRow =
     \<lparr>data = Some (cso (memoizedOrderBy P) (existingRows currentData @ [newRow])),
      count = (if returnCount P = Some ''none'' then None
               else Some (priorCount currentData + 1))\<rparr>"
    by (rule add_eq)
next
  let ?xs = "existingRows currentData @ [newRow]"
  let ?out = "cso (memoizedOrderBy P) ?xs"
  assume perm: "\<forall>xs. mset (cso (memoizedOrderBy P) xs) = mset xs"
  then have m: "mset ?out = mset ?xs" by blast
  have len: "length ?out = length (existingRows currentData) + 1"
    using mset_eq_length [OF m] by simp
  have "Multiset.count (mset ?out) newRow = Multiset.count (mset ?xs) newRow"
    using m by simp
  then have cnt: "count_list ?out newRow
                    = count_list (existingRows currentData) newRow + 1"
    by (simp add: count_mset flip: count_list_eq_length_filter)
  have one: "newRow \<notin> set (existingRows currentData) \<longrightarrow> count_list ?out newRow = 1"
    using cnt by (simp add: count_list_0_iff)
  have fresh: "newRow = stampOptimistic u r
                \<and> (\<forall>old \<in> set (existingRows currentData).
                       getField old ''optimisticId'' \<noteq> JStr u)
                \<longrightarrow> count_list ?out newRow = 1"
  proof
    assume h: "newRow = stampOptimistic u r
                \<and> (\<forall>old \<in> set (existingRows currentData).
                       getField old ''optimisticId'' \<noteq> JStr u)"
    have "getField newRow ''optimisticId'' = JStr u"
      using h by (simp add: getField_stamp)
    then have "newRow \<notin> set (existingRows currentData)"
      using h by blast
    then show "count_list ?out newRow = 1"
      using one by blast
  qed
  show "\<exists>rows. data (addRowOptimistically cso P currentData newRow) = Some rows
           \<and> length rows = length (existingRows currentData) + 1
           \<and> count_list rows newRow
               = count_list (existingRows currentData) newRow + 1
           \<and> (newRow \<notin> set (existingRows currentData)
                \<longrightarrow> count_list rows newRow = 1)
           \<and> (newRow = stampOptimistic u r
                \<and> (\<forall>old \<in> set (existingRows currentData).
                       getField old ''optimisticId'' \<noteq> JStr u)
                \<longrightarrow> count_list rows newRow = 1)"
    using len cnt one fresh by (simp add: add_eq)
qed

lemma mset_sortByNumber: "mset (sortByNumber col xs) = mset xs"
  by (simp add: sortByNumber_def)

theorem insert_sorted_append_count_witness:
  "addRowOptimistically sortByNumber
      \<lparr>returnCount = Some ''exact'', uniqueIdentifierField = ''id'', memoizedOrderBy = ''rank''\<rparr>
      (Some \<lparr>data = Some [[(''id'', JNum 1), (''rank'', JNum 10)],
                          [(''id'', JNum 2), (''rank'', JNum 30)]],
             count = Some 2\<rparr>)
      [(''rank'', JNum 20), (''optimisticId'', JStr ''u1''), (''isOptimistic'', JBool True)]
    = \<lparr>data = Some [[(''id'', JNum 1), (''rank'', JNum 10)],
                    [(''rank'', JNum 20), (''optimisticId'', JStr ''u1''), (''isOptimistic'', JBool True)],
                    [(''id'', JNum 2), (''rank'', JNum 30)]],
       count = Some 3\<rparr>
   \<and> count_list [[(''id'', JNum 1), (''rank'', JNum 10)],
                    [(''rank'', JNum 20), (''optimisticId'', JStr ''u1''), (''isOptimistic'', JBool True)],
                    [(''id'', JNum 2), (''rank'', JNum 30)]]
        [(''rank'', JNum 20), (''optimisticId'', JStr ''u1''), (''isOptimistic'', JBool True)] = 1"
  using insert_sorted_append_count [of sortByNumber
      "\<lparr>returnCount = Some ''exact'', uniqueIdentifierField = ''id'', memoizedOrderBy = ''rank''\<rparr>"
      "Some \<lparr>data = Some [[(''id'', JNum 1), (''rank'', JNum 10)],
                          [(''id'', JNum 2), (''rank'', JNum 30)]],
             count = Some 2\<rparr>"
      "[(''rank'', JNum 20), (''optimisticId'', JStr ''u1''), (''isOptimistic'', JBool True)]"
      "''u1''" "[(''rank'', JNum 20)]"]
  by (simp add: mset_sortByNumber existingRows_def priorCount_def sortByNumber_def getField_def
                stampOptimistic_def)

lemma filter_no_match:
  "\<forall>r \<in> set rows. \<not> strictEq (getField r k) v \<Longrightarrow>
     filter (\<lambda>r. \<not> strictEq (getField r k) v) rows = rows"
  by (induction rows) auto

text \<open>
  C4. On a snapshot that is present and holds no row whose unique-identifier value is
  strictly equal to the scalar one of the speculative row, the delete transform returns
  the rows as they were (null data comes back as the empty list), and the count is
  decremented by 1 all the same, unless \<open>returnCount\<close> is \<^verbatim>\<open>"none"\<close>.
\<close>

theorem delete_miss_keeps_rows_decrements:
  assumes scalar: "typeof (getField newRow (uniqueIdentifierField P)) = ''number''
                 \<or> typeof (getField newRow (uniqueIdentifierField P)) = ''string''"
    and miss: "\<forall>r \<in> set (existingRows (Some cd)).
                 \<not> strictEq (getField r (uniqueIdentifierField P))
                             (getField newRow (uniqueIdentifierField P))"
  shows "deleteRowOptimistically P (Some cd) newRow =
           Inr \<lparr>data = Some (existingRows (Some cd)),
                count = (if returnCount P = Some ''none'' then None
                         else Some (priorCount (Some cd) - 1))\<rparr>"
proof (cases "data cd")
  case None
  then show ?thesis
    using scalar
    by (auto simp: deleteRowOptimistically_def existingRows_def priorCount_def Let_def
             split: option.splits)
next
  case (Some rows)
  then have "filter (\<lambda>r. \<not> strictEq (getField r (uniqueIdentifierField P))
                                    (getField newRow (uniqueIdentifierField P))) rows = rows"
    using miss by (intro filter_no_match) (simp add: existingRows_def)
  then show ?thesis
    using scalar Some
    by (auto simp: deleteRowOptimistically_def existingRows_def priorCount_def Let_def
             split: option.splits)
qed

theorem delete_miss_keeps_rows_decrements_witness:
  "deleteRowOptimistically
      \<lparr>returnCount = Some ''exact'', uniqueIdentifierField = ''id'', memoizedOrderBy = ()\<rparr>
      (Some \<lparr>data = Some [[(''id'', JNum 1)], [(''id'', JNum 2)]], count = Some 2\<rparr>)
      [(''id'', JNum 5)]
    = Inr \<lparr>data = Some [[(''id'', JNum 1)], [(''id'', JNum 2)]], count = Some 1\<rparr>"
  using delete_miss_keeps_rows_decrements [of "[(''id'', JNum 5)]"
      "\<lparr>returnCount = Some ''exact'', uniqueIdentifierField = ''id'', memoizedOrderBy = ()\<rparr>"
      "\<lparr>data = Some [[(''id'', JNum 1)], [(''id'', JNum 2)]], count = Some 2\<rparr>"]
  by (simp add: existingRows_def priorCount_def getField_def typeof_def strictEq_def)

lemma map_replace_unique:
  assumes d: "distinct (map f xs)" and i: "i < length xs" and m: "strictEq (f (xs ! i)) v"
  shows "map (\<lambda>r. if strictEq (f r) v then new else r) xs = xs[i := new]"
proof (rule nth_equalityI)
  show "length (map (\<lambda>r. if strictEq (f r) v then new else r) xs) = length (xs[i := new])"
    by simp
next
  fix j
  assume "j < length (map (\<lambda>r. if strictEq (f r) v then new else r) xs)"
  then have j: "j < length xs" by simp
  show "map (\<lambda>r. if strictEq (f r) v then new else r) xs ! j = xs[i := new] ! j"
  proof (cases "j = i")
    case True
    then show ?thesis using i m by simp
  next
    case False
    have "\<not> strictEq (f (xs ! j)) v"
    proof
      assume "strictEq (f (xs ! j)) v"
      then have "f (xs ! j) = f (xs ! i)" using m by (simp add: strictEq_def)
      then have "map f xs ! j = map f xs ! i" using i j by simp
      then have "j = i" using nth_eq_iff_index_eq [OF d, of j i] i j by simp
      then show False using False by simp
    qed
    then show ?thesis using False j by simp
  qed
qed

lemma map_replace_none:
  "\<forall>r \<in> set xs. \<not> strictEq (f r) v \<Longrightarrow> map (\<lambda>r. if strictEq (f r) v then new else r) xs = xs"
  by (induction xs) auto

lemma edit_eq:
  "editRowOptimistically cso P (Some cd) newRow =
     \<lparr>data = Some (cso (memoizedOrderBy P)
         (map (\<lambda>r. if strictEq (getField r (uniqueIdentifierField P))
                               (getField newRow (uniqueIdentifierField P))
                    then newRow else r) (existingRows (Some cd)))),
      count = count cd\<rparr>"
  by (simp add: editRowOptimistically_def existingRows_def split: option.splits)

text \<open>
  C5. On a snapshot that is present and whose rows have pairwise distinct
  unique-identifier values, the edit transform replaces the row at the one position
  whose value is strictly equal to the speculative row's and no other (no position when
  none matches), leaves the count field as it was, and hands the rows to the client-side
  sort; with an order function that permutes its input the number of rows is unchanged.
\<close>

theorem edit_replaces_one_row:
  assumes d: "distinct (map (\<lambda>r. getField r (uniqueIdentifierField P)) (existingRows (Some cd)))"
  shows "(i < length (existingRows (Some cd)) \<and>
            strictEq (getField (existingRows (Some cd) ! i) (uniqueIdentifierField P))
                     (getField newRow (uniqueIdentifierField P)) \<longrightarrow>
            editRowOptimistically cso P (Some cd) newRow =
              \<lparr>data = Some (cso (memoizedOrderBy P) ((existingRows (Some cd))[i := newRow])),
               count = count cd\<rparr>)
       \<and> ((\<forall>r \<in> set (existingRows (Some cd)).
              \<not> strictEq (getField r (uniqueIdentifierField P))
                          (getField newRow (uniqueIdentifierField P))) \<longrightarrow>
            editRowOptimistically cso P (Some cd) newRow =
              \<lparr>data = Some (cso (memoizedOrderBy P) (existingRows (Some cd))),
               count = count cd\<rparr>)
       \<and> count (editRowOptimistically cso P (Some cd) newRow) = count cd
       \<and> ((\<forall>xs. mset (cso (memoizedOrderBy P) xs) = mset xs) \<longrightarrow>
            (\<exists>rows. data (editRowOptimistically cso P (Some cd) newRow) = Some rows
               \<and> length rows = length (existingRows (Some cd))))"
proof (intro conjI allI impI)
  assume "i < length (existingRows (Some cd)) \<and>
    strictEq (getField (existingRows (Some cd) ! i) (uniqueIdentifierField P))
                  (getField newRow (uniqueIdentifierField P))"
  then show "editRowOptimistically cso P (Some cd) newRow =
              \<lparr>data = Some (cso (memoizedOrderBy P) ((existingRows (Some cd))[i := newRow])),
               count = count cd\<rparr>"
    using map_replace_unique [OF d, of i "getField newRow (uniqueIdentifierField P)" newRow]
    by (simp add: edit_eq)
next
  assume "\<forall>r \<in> set (existingRows (Some cd)).
              \<not> strictEq (getField r (uniqueIdentifierField P))
                          (getField newRow (uniqueIdentifierField P))"
  then show "editRowOptimistically cso P (Some cd) newRow =
              \<lparr>data = Some (cso (memoizedOrderBy P) (existingRows (Some cd))),
               count = count cd\<rparr>"
    using map_replace_none [of "existingRows (Some cd)" "\<lambda>r. getField r (uniqueIdentifierField P)"]
    by (simp add: edit_eq)
next
  show "count (editRowOptimistically cso P (Some cd) newRow) = count cd"
    by (simp add: edit_eq)
next
  assume perm: "\<forall>xs. mset (cso (memoizedOrderBy P) xs) = mset xs"
  let ?m = "map (\<lambda>r. if strictEq (getField r (uniqueIdentifierField P))
                               (getField newRow (uniqueIdentifierField P))
                    then newRow else r) (existingRows (Some cd))"
  have "mset (cso (memoizedOrderBy P) ?m) = mset ?m" using perm by blast
  then have "length (cso (memoizedOrderBy P) ?m) = length ?m" by (rule mset_eq_length)
  then show "\<exists>rows. data (editRowOptimistically cso P (Some cd) newRow) = Some rows
               \<and> length rows = length (existingRows (Some cd))"
    by (simp add: edit_eq)
qed

theorem edit_replaces_one_row_witness:
  "editRowOptimistically sortByNumber
      \<lparr>returnCount = Some ''exact'', uniqueIdentifierField = ''id'', memoizedOrderBy = ''rank''\<rparr>
      (Some \<lparr>data = Some [[(''id'', JNum 1), (''rank'', JNum 10)],
                          [(''id'', JNum 2), (''rank'', JNum 30)]],
             count = Some 7\<rparr>)
      [(''id'', JNum 2), (''rank'', JNum 5)]
    = \<lparr>data = Some [[(''id'', JNum 2), (''rank'', JNum 5)],
                    [(''id'', JNum 1), (''rank'', JNum 10)]],
       count = Some 7\<rparr>"
  using edit_replaces_one_row [of
      "\<lparr>returnCount = Some ''exact'', uniqueIdentifierField = ''id'', memoizedOrderBy = ''rank''\<rparr>"
      "\<lparr>data = Some [[(''id'', JNum 1), (''rank'', JNum 10)],
                          [(''id'', JNum 2), (''rank'', JNum 30)]],
             count = Some 7\<rparr>"
      1 "[(''id'', JNum 2), (''rank'', JNum 5)]" sortByNumber]
  by (simp add: existingRows_def getField_def strictEq_def sortByNumber_def)

section \<open>The transform selector\<close>

lemma row_transform_has_row:
  "selectFunctions mt flexOp rpcOp rf df c = Inr (m, f) \<Longrightarrow>
   f \<in> {AddRowOptimistically, EditRowOptimistically, DeleteRowOptimistically} \<Longrightarrow> rf \<noteq> None"
  by (auto simp: selectFunctions_def chooseOptimisticFunction_def
           split: if_splits option.splits sum.splits)

text \<open>
  C6. The rule table of \<^verbatim>\<open>chooseOptimisticFunction\<close>: an unset operation gives the identity;
  \<^verbatim>\<open>addRow\<close>, \<^verbatim>\<open>editRow\<close> and \<^verbatim>\<open>deleteRow\<close> give their transform when a speculative row is
  set and the identity otherwise; \<^verbatim>\<open>replaceData\<close> gives the replace closure over the
  speculative dataset and count when a dataset is set and the identity otherwise; every
  other value is an invalid-operation error. Calling what was selected is calling the
  transform of that name.
\<close>

theorem selector_rule_table:
  "chooseOptimisticFunction None rf df c = Inr ReturnUnchangedData
   \<and> chooseOptimisticFunction (Some ''addRow'') (Some r) df c = Inr AddRowOptimistically
   \<and> chooseOptimisticFunction (Some ''editRow'') (Some r) df c = Inr EditRowOptimistically
   \<and> chooseOptimisticFunction (Some ''deleteRow'') (Some r) df c = Inr DeleteRowOptimistically
   \<and> chooseOptimisticFunction (Some ''addRow'') None df c = Inr ReturnUnchangedData
   \<and> chooseOptimisticFunction (Some ''editRow'') None df c = Inr ReturnUnchangedData
   \<and> chooseOptimisticFunction (Some ''deleteRow'') None df c = Inr ReturnUnchangedData
   \<and> chooseOptimisticFunction (Some ''replaceData'') rf (Some rows) c
       = Inr (ReplaceDataClosure rows c)
   \<and> chooseOptimisticFunction (Some ''replaceData'') rf None c = Inr ReturnUnchangedData
   \<and> (opn \<notin> {''addRow'', ''editRow'', ''deleteRow'', ''replaceData''} \<longrightarrow>
        chooseOptimisticFunction (Some opn) rf df c = Inl InvalidOptimisticOperation)
   \<and> callOptimisticFunc cso P ReturnUnchangedData cur rf = Inr (returnUnchangedData cur)
   \<and> callOptimisticFunc cso P AddRowOptimistically cur (Some r)
       = Inr (addRowOptimistically cso P cur r)
   \<and> callOptimisticFunc cso P EditRowOptimistically cur (Some r)
       = Inr (editRowOptimistically cso P cur r)
   \<and> callOptimisticFunc cso P DeleteRowOptimistically cur (Some r)
       = deleteRowOptimistically P cur r
   \<and> callOptimisticFunc cso P (ReplaceDataClosure rows c) cur rf
       = Inr \<lparr>data = Some rows, count = orNull c\<rparr>"
  by (simp add: chooseOptimisticFunction_def callOptimisticFunc_def
                replaceDataOptimistically_def orNull_def)

theorem selector_rule_table_witness:
  "chooseOptimisticFunction (Some ''upsert'') (Some [(''id'', JNum 1)]) None None
     = Inl InvalidOptimisticOperation"
  using selector_rule_table [where opn = "''upsert''" and rf = "Some [(''id'', JNum 1)]"
      and df = None and c = None and r = "[]" and rows = "[]" and cso = sortByNumber
      and P = "\<lparr>returnCount = None, uniqueIdentifierField = ''id'', memoizedOrderBy = ''id''\<rparr>"
      and cur = None]
  by simp

section \<open>The coordinator: synchronous checks\<close>

lemma trace_failed_validation:
  "validateSettings H a (clearEmptyFlexible (flexibleMutationSettings a))
       (clearEmptyRpc (rpcSettings a)) = Some e \<Longrightarrow>
   trace (handleMutation H u outcome a) = [SetIsMutating True, Throw e]"
  by (simp add: handleMutation_def Let_def)

lemma trace_both_inputs:
  "validateSettings H a (clearEmptyFlexible (flexibleMutationSettings a))
       (clearEmptyRpc (rpcSettings a)) = None \<Longrightarrow>
   optimisticRow a \<noteq> None \<Longrightarrow> optimisticData a \<noteq> None \<Longrightarrow>
   trace (handleMutation H u outcome a) = [SetIsMutating True, Throw BothOptimisticInputs]"
  by (simp add: handleMutation_def Let_def)

lemma trace_after_checks:
  "passesChecks H a \<Longrightarrow>
   trace (handleMutation H u outcome a) =
     SetIsMutating True #
       resolveImmediately (getMutationPhrases H (mutationType a)) a (rowFinal u a) (dataFinal u a)
       @ runMutation H (getMutationPhrases H (mutationType a))
           (clearEmptyFlexible (flexibleMutationSettings a)) (clearEmptyRpc (rpcSettings a))
           a (rowFinal u a) (dataFinal u a) outcome"
  unfolding passesChecks_def handleMutation_def rowFinal_def dataFinal_def
  by (auto simp: Let_def split: prod.splits)

lemma validation_errors_are_configuration:
  "validateSettings H a fms rpc = Some e \<Longrightarrow> isConfigurationError e"
  by (auto simp: validateSettings_def isConfigurationError_def Let_def
           split: if_splits option.splits)

lemma validation_only_flexible_rpc:
  "mutationType a \<noteq> ''flexibleMutation'' \<Longrightarrow> mutationType a \<noteq> ''rpc'' \<Longrightarrow>
   validateSettings H a fms rpc = None"
  by (simp add: validateSettings_def)

text \<open>
  C3. Whatever the mutation kind, a call that supplies both \<^verbatim>\<open>optimisticRow\<close> and
  \<^verbatim>\<open>optimisticData\<close> throws inside the promise executor right after the mutating flag is
  set: the promise is rejected with a configuration error (the error of line 175 for
  insert, update and delete; that one or a validator's for the flexible and rpc kinds),
  and neither a backend mutator nor the cache's \<^verbatim>\<open>mutate\<close> has been called.
\<close>

theorem both_speculative_inputs_rejected:
  assumes r: "optimisticRow a = Some r" and d: "optimisticData a = Some d"
  shows "\<exists>e. trace (handleMutation H u outcome a) = [SetIsMutating True, Throw e]
            \<and> promiseOf (trace (handleMutation H u outcome a)) = Rejected e
            \<and> isConfigurationError e
            \<and> filter isBackendOrCache (trace (handleMutation H u outcome a)) = []
            \<and> (mutationType a \<noteq> ''flexibleMutation'' \<and> mutationType a \<noteq> ''rpc''
                 \<longrightarrow> e = BothOptimisticInputs)"
proof (cases "validateSettings H a (clearEmptyFlexible (flexibleMutationSettings a))
                (clearEmptyRpc (rpcSettings a))")
  case None
  then have "trace (handleMutation H u outcome a) = [SetIsMutating True, Throw BothOptimisticInputs]"
    using r d by (intro trace_both_inputs) simp_all
  then show ?thesis
    by (simp add: promiseOf_def isConfigurationError_def isBackendOrCache_def)
next
  case (Some e)
  then have t: "trace (handleMutation H u outcome a) = [SetIsMutating True, Throw e]"
    by (rule trace_failed_validation)
  have c: "isConfigurationError e"
    using Some by (rule validation_errors_are_configuration)
  have "mutationType a = ''flexibleMutation'' \<or> mutationType a = ''rpc''"
    using Some validation_only_flexible_rpc [of a H] by fastforce
  then show ?thesis
    using t c by (auto simp: promiseOf_def isBackendOrCache_def)
qed

theorem both_speculative_inputs_rejected_witness:
  "trace (handleMutation scenarioEnv ''u1'' (MutateFulfils None)
            (scenarioArgs\<lparr>mutationType := ''insert'',
                           optimisticRow := Some [(''name'', JStr ''Bob'')],
                           optimisticData := Some (ManyRows [])\<rparr>))
     = [SetIsMutating True, Throw BothOptimisticInputs]"
  using both_speculative_inputs_rejected [of
      "scenarioArgs\<lparr>mutationType := ''insert'',
                     optimisticRow := Some [(''name'', JStr ''Bob'')],
                     optimisticData := Some (ManyRows [])\<rparr>"
      "[(''name'', JStr ''Bob'')]" "ManyRows []" scenarioEnv "''u1''" "MutateFulfils None"]
  by (auto simp: scenarioArgs_def)

section \<open>Deleting with an unusable identifier\<close>

lemma delete_dispatch:
  assumes "mutationType a = ''delete''" "optimisticRow a = None \<or> optimisticData a = None"
    "rowFinal u a = Some sr"
  shows "trace (handleMutation H u outcome a) =
           SetIsMutating True #
             resolveImmediately (getMutationPhrases H ''delete'') a (Some sr) (dataFinal u a)
             @ [CallMutator (DeleteRowMutatorCall (dataForSupabase a) (shouldReturnRow a)),
                CallMutate \<lparr>o_optimisticFunc = DeleteRowOptimistically,
                            o_optimisticRowFinal = Some sr,
                            o_populateCache = False, o_revalidate = True,
                            o_rollbackOnError = True\<rparr>]
             @ settle H (getMutationPhrases H ''delete'') a (Some sr) (dataFinal u a) outcome"
proof -
  have "passesChecks H a"
    using assms by (simp add: passesChecks_def validation_only_flexible_rpc)
  then show ?thesis
    using assms
    by (simp add: trace_after_checks runMutation_def selectFunctions_def callMutatorFunction_def)
qed

text \<open>
  C2, as the code has it. For a delete mutation whose final speculative row carries a
  unique-identifier value that is neither a number nor a string (or none),
  \<open>handleMutation\<close> first calls the backend mutator, then hands the delete transform
  to the cache's \<^verbatim>\<open>mutate\<close>; applied to a present snapshot the transform fails with the
  invalid-optimistic-input error, applied to an absent one it returns
  \<^verbatim>\<open>{data: null, count: null}\<close> without failing.
\<close>

theorem delete_invalid_id_fails_when_applied:
  assumes mt: "mutationType a = ''delete''"
    and one: "optimisticRow a = None \<or> optimisticData a = None"
    and row: "rowFinal u a = Some sr"
    and notnum: "typeof (getField sr (uniqueIdentifierField P)) \<noteq> ''number''"
    and notstr: "typeof (getField sr (uniqueIdentifierField P)) \<noteq> ''string''"
  shows "trace (handleMutation H u outcome a) =
           SetIsMutating True #
             resolveImmediately (getMutationPhrases H ''delete'') a (Some sr) (dataFinal u a)
             @ [CallMutator (DeleteRowMutatorCall (dataForSupabase a) (shouldReturnRow a)),
                CallMutate \<lparr>o_optimisticFunc = DeleteRowOptimistically,
                            o_optimisticRowFinal = Some sr,
                            o_populateCache = False, o_revalidate = True,
                            o_rollbackOnError = True\<rparr>]
             @ settle H (getMutationPhrases H ''delete'') a (Some sr) (dataFinal u a) outcome
       \<and> callOptimisticFunc cso P DeleteRowOptimistically (Some cd) (Some sr)
           = Inl InvalidOptimisticInput
       \<and> callOptimisticFunc cso P DeleteRowOptimistically None (Some sr)
           = Inr \<lparr>data = None, count = None\<rparr>"
  using delete_dispatch [OF mt one row] notnum notstr
  by (simp add: callOptimisticFunc_def deleteRowOptimistically_def Let_def)

theorem delete_invalid_id_fails_when_applied_witness:
  "rowFinal ''u1'' (scenarioArgs\<lparr>optimisticRow := Some [(''id'', JObject 7)]\<rparr>)
     = Some [(''id'', JObject 7), (''optimisticId'', JStr ''u1''), (''isOptimistic'', JBool True)]
   \<and> callOptimisticFunc sortByNumber
      \<lparr>returnCount = Some ''exact'', uniqueIdentifierField = ''id'', memoizedOrderBy = ''id''\<rparr>
      DeleteRowOptimistically
      (Some \<lparr>data = Some [[(''id'', JNum 1)]], count = Some 1\<rparr>)
      (Some [(''id'', JObject 7), (''optimisticId'', JStr ''u1''), (''isOptimistic'', JBool True)])
    = Inl InvalidOptimisticInput"
  using delete_invalid_id_fails_when_applied [where
      a = "scenarioArgs\<lparr>optimisticRow := Some [(''id'', JObject 7)]\<rparr>"
      and sr = "[(''id'', JObject 7), (''optimisticId'', JStr ''u1''), (''isOptimistic'', JBool True)]"
      and u = "''u1''"
      and P = "\<lparr>returnCount = Some ''exact'', uniqueIdentifierField = ''id'', memoizedOrderBy = ''id''\<rparr>"
      and H = scenarioEnv and outcome = MutateNeverSettles and cso = sortByNumber
      and cd = "\<lparr>data = Some [[(''id'', JNum 1)]], count = Some 1\<rparr>"]
  by (simp add: scenarioArgs_def rowFinal_def materialize_def stampOptimistic_def getField_def
                typeof_def)

text \<open>
  C2 as stated does not hold: with no \<^verbatim>\<open>id\<close> on the speculative row, the backend mutator
  is called all the same, and on an absent snapshot the transform returns normally, so
  that the call goes on to resolve with a success envelope.
\<close>

theorem delete_invalid_id_counterexample:
  "trace (handleMutation scenarioEnv ''u1'' (MutateFulfils None)
            (scenarioArgs\<lparr>optimisticRow := Some [(''name'', JStr ''Bob'')]\<rparr>))
     = [SetIsMutating True,
        CallMutator (DeleteRowMutatorCall (Some (OneRow [(''id'', JNum 5)])) False),
        CallMutate \<lparr>o_optimisticFunc = DeleteRowOptimistically,
                    o_optimisticRowFinal =
                      Some [(''name'', JStr ''Bob''), (''optimisticId'', JStr ''u1''),
                            (''isOptimistic'', JBool True)],
                    o_populateCache = False, o_revalidate = True, o_rollbackOnError = True\<rparr>,
        OnMutateSuccess
          (successResult \<lparr>inProgress = ''in progress'', success = ''done'', error = ''failed''\<rparr>
             (scenarioArgs\<lparr>optimisticRow := Some [(''name'', JStr ''Bob'')]\<rparr>)
             (Some [(''name'', JStr ''Bob''), (''optimisticId'', JStr ''u1''),
                    (''isOptimistic'', JBool True)]) None None),
        Resolve
          (successResult \<lparr>inProgress = ''in progress'', success = ''done'', error = ''failed''\<rparr>
             (scenarioArgs\<lparr>optimisticRow := Some [(''name'', JStr ''Bob'')]\<rparr>)
             (Some [(''name'', JStr ''Bob''), (''optimisticId'', JStr ''u1''),
                    (''isOptimistic'', JBool True)]) None None)]
   \<and> typeof (getField [(''name'', JStr ''Bob''), (''optimisticId'', JStr ''u1''),
                        (''isOptimistic'', JBool True)] ''id'') = ''undefined''
   \<and> callOptimisticFunc sortByNumber
        \<lparr>returnCount = Some ''exact'', uniqueIdentifierField = ''id'', memoizedOrderBy = ''id''\<rparr>
        DeleteRowOptimistically None
        (Some [(''name'', JStr ''Bob''), (''optimisticId'', JStr ''u1''),
               (''isOptimistic'', JBool True)])
       = Inr \<lparr>data = None, count = None\<rparr>"
  by (simp add: handleMutation_def scenarioArgs_def scenarioEnv_def validateSettings_def
                clearEmptyFlexible_def clearEmptyRpc_def materialize_def stampOptimistic_def
                resolveImmediately_def runMutation_def selectFunctions_def
                callMutatorFunction_def settle_def Let_def getField_def typeof_def
                callOptimisticFunc_def deleteRowOptimistically_def)

section \<open>The coordinator: resolving the caller's promise\<close>





lemma trace_cases:
  obtains (invalid) e where "trace (handleMutation H u outcome a) = [SetIsMutating True, Throw e]"
        | (valid) "passesChecks H a"
proof (cases "validateSettings H a (clearEmptyFlexible (flexibleMutationSettings a))
                (clearEmptyRpc (rpcSettings a))")
  case (Some e)
  then show ?thesis using invalid trace_failed_validation by blast
next
  case None
  show ?thesis
  proof (cases "optimisticRow a \<noteq> None \<and> optimisticData a \<noteq> None")
    case True
    then show ?thesis using None invalid trace_both_inputs by blast
  next
    case False
    then show ?thesis using None valid by (simp add: passesChecks_def)
  qed
qed




lemma promiseOf_settled:
  "foldl promiseStep (Fulfilled v) t = Fulfilled v"
  "foldl promiseStep (Rejected e) t = Rejected e"
  by (induction t) simp_all

lemma promiseOf_first_resolve:
  "\<forall>ev \<in> set pre. \<not> isResolve ev \<and> \<not> isThrow ev \<Longrightarrow>
   promiseOf (pre @ Resolve v # rest) = Fulfilled v"
proof -
  assume pre: "\<forall>ev \<in> set pre. \<not> isResolve ev \<and> \<not> isThrow ev"
  have "\<forall>ev \<in> set pre. \<not> isResolve ev \<and> \<not> isThrow ev \<Longrightarrow> foldl promiseStep Unsettled pre = Unsettled"
  proof (induction pre rule: rev_induct)
    case Nil
    then show ?case by simp
  next
    case (snoc ev pre)
    then show ?case by (cases ev) (simp_all add: isResolve_def isThrow_def)
  qed
  then show ?thesis using pre by (simp add: promiseOf_def promiseOf_settled)
qed


lemma callMutate_not_in_settle:
  "CallMutate opts \<notin> set (settle H ph a rf df outcome)"
  by (cases outcome)
     (auto simp: settle_def catchHandler_def Let_def split: option.splits if_splits)

lemma mutate_reached:
  assumes "CallMutate opts \<in> set (trace (handleMutation H u outcome a))"
  shows "passesChecks H a \<and>
         (\<exists>call. runMutation H (getMutationPhrases H (mutationType a))
                    (clearEmptyFlexible (flexibleMutationSettings a))
                    (clearEmptyRpc (rpcSettings a)) a (rowFinal u a) (dataFinal u a) outcome
                  = [CallMutator call, CallMutate opts]
                    @ settle H (getMutationPhrases H (mutationType a)) a
                        (rowFinal u a) (dataFinal u a) outcome)"
proof (cases rule: trace_cases [of H u outcome a])
  case (invalid e)
  then show ?thesis using assms by simp
next
  case valid
  let ?sel = "selectFunctions (mutationType a)
          (case clearEmptyFlexible (flexibleMutationSettings a) of
             None \<Rightarrow> None | Some x \<Rightarrow> optimisticOperation x)
          (case clearEmptyRpc (rpcSettings a) of
             None \<Rightarrow> None | Some x \<Rightarrow> rpc_optimisticOperation x)
          (rowFinal u a) (dataFinal u a) (optimisticCount a)"
  let ?run = "runMutation H (getMutationPhrases H (mutationType a))
                    (clearEmptyFlexible (flexibleMutationSettings a))
                    (clearEmptyRpc (rpcSettings a)) a (rowFinal u a) (dataFinal u a) outcome"
  have inrun: "CallMutate opts \<in> set ?run"
    using assms by (auto simp: trace_after_checks [OF valid] resolveImmediately_def)
  show ?thesis
  proof (cases ?sel)
    case (Inl e)
    then show ?thesis using inrun by (simp add: runMutation_def)
  next
    case (Inr mf)
    obtain m f where mf: "mf = (m, f)" by (cases mf)
    show ?thesis
    proof (cases "callMutatorFunction m (clearEmptyFlexible (flexibleMutationSettings a))
                    (clearEmptyRpc (rpcSettings a)) (dataForSupabase a) (shouldReturnRow a)")
      case (Inl e)
      then show ?thesis using inrun Inr mf by (simp add: runMutation_def)
    next
      case call: (Inr call)
      then show ?thesis
        using inrun Inr mf valid
          callMutate_not_in_settle [of opts H "getMutationPhrases H (mutationType a)" a
            "rowFinal u a" "dataFinal u a" outcome]
        by (auto simp: runMutation_def)
    qed
  qed
qed

lemma trace_dispatched:
  fixes H :: "'e hookEnv"
  assumes valid: "passesChecks H a" and sel: "dispatch u a = Inr (call, f)"
  shows "trace (handleMutation H u outcome a) =
           SetIsMutating True #
           (if returnImmediately a then [Resolve (pendingOf H u a)] else [])
           @ [CallMutator call, CallMutate (optionsOf u a f)]
           @ settle H (getMutationPhrases H (mutationType a)) a (rowFinal u a) (dataFinal u a)
               outcome"
  using sel
  by (auto simp: trace_after_checks [OF valid] dispatch_def runMutation_def
                 resolveImmediately_def pendingOf_def optionsOf_def
           split: sum.splits prod.splits)

lemma promiseOf_dispatched:
  assumes "\<forall>ev \<in> set mid. \<not> isResolve ev \<and> \<not> isThrow ev"
  shows "promiseOf (SetIsMutating True # (if ri then [Resolve p] else [])
                      @ [CallMutator call, CallMutate opts] @ mid
                      @ (if ri then [] else [Resolve v]))
           = Fulfilled (if ri then p else v)"
proof (cases ri)
  case True
  have "promiseOf ([SetIsMutating True] @ Resolve p # ([CallMutator call, CallMutate opts] @ mid))
          = Fulfilled p"
    by (rule promiseOf_first_resolve) (simp add: isResolve_def isThrow_def)
  then show ?thesis using True by simp
next
  case False
  have "promiseOf (([SetIsMutating True, CallMutator call, CallMutate opts] @ mid) @ Resolve v # [])
          = Fulfilled v"
    by (rule promiseOf_first_resolve) (use assms in \<open>simp add: isResolve_def isThrow_def\<close>)
  then show ?thesis using False by simp
qed


lemma settle_rejects_returns:
  "callbackReturns (memoizedOnError H) (providerError H ph a rf df err) \<Longrightarrow>
   settle H ph a rf df (MutateRejects err) =
     callbackEvent (memoizedOnError H) (OnError (providerError H ph a rf df err))
     @ (if returnImmediately a then []
        else [Resolve (errorResult ph a rf df (providerError H ph a rf df err))])"
  by (auto simp: settle_def catchHandler_def callbackReturns_def callbackEvent_def Let_def
           split: option.splits)

lemma callbackEvent_quiet:
  "\<not> isResolve ev \<Longrightarrow> \<not> isThrow ev \<Longrightarrow>
   \<forall>x \<in> set (callbackEvent cb ev). \<not> isResolve x \<and> \<not> isThrow x"
  by (simp add: callbackEvent_def split: option.splits)




lemma catchHandler_no_throw:
  "\<forall>ev \<in> set (catchHandler H ph a rf df err). \<not> isThrow ev"
  by (auto simp: catchHandler_def isThrow_def Let_def split: option.splits if_splits)

lemma promiseOf_never_rejected:
  "\<forall>ev \<in> set t. \<not> isThrow ev \<Longrightarrow> promiseOf t \<noteq> Rejected e"
proof -
  have "\<forall>ev \<in> set t. \<not> isThrow ev \<Longrightarrow> foldl promiseStep s t \<noteq> Rejected e"
    if "s \<noteq> Rejected e" for s :: "'a promiseState"
    using that
  proof (induction t arbitrary: s)
    case Nil
    then show ?case by simp
  next
    case (Cons ev t)
    have "promiseStep s ev \<noteq> Rejected e"
      using Cons.prems by (cases s; cases ev) (simp_all add: isThrow_def)
    then show ?case using Cons by simp
  qed
  then show "\<forall>ev \<in> set t. \<not> isThrow ev \<Longrightarrow> promiseOf t \<noteq> Rejected e"
    by (simp add: promiseOf_def)
qed

text \<open>
  C8, as the code has it. In a call that has passed the checks and whose switch and
  mutator call succeed, a rejection of \<^verbatim>\<open>mutate\<close> with \<open>err\<close> has the error object built
  from \<open>err\<close>, the mutation type, the error phrase, the original input, the speculative
  input and the custom metadata, and the error callback, when set, called with it. When
  that callback is unset or returns normally, the caller's promise is fulfilled: with the
  error envelope carrying that object, or with the pending envelope when it was resolved
  at once. The executor throws nothing and the promise is not rejected.
\<close>

theorem rejection_reported_not_thrown:
  fixes H :: "'e hookEnv"
  assumes checks: "passesChecks H a" and sel: "dispatch u a = Inr (call, f)"
  shows
  "trace (handleMutation H u (MutateRejects err) a) =
     SetIsMutating True #
     (if returnImmediately a then [Resolve (pendingOf H u a)] else [])
     @ [CallMutator call, CallMutate (optionsOf u a f)]
     @ (case memoizedOnError H of
          None \<Rightarrow> (if returnImmediately a then [] else [Resolve (errorOf H u a err)])
        | Some onError \<Rightarrow>
            OnError (builtError H u a err) #
              (case onError (builtError H u a err) of
                 Some thrown \<Rightarrow> [Unhandled thrown]
               | None \<Rightarrow> (if returnImmediately a then [] else [Resolve (errorOf H u a err)])))
   \<and> builtError H u a err =
       buildSupabaseProviderError H
         \<lparr>e_error = err,
          e_actionAttempted = mutationType a,
          e_summary = error (getMutationPhrases H (mutationType a)),
          e_dataForSupabase = dataForSupabase a,
          e_optimisticData = echoOptimistic (rowFinal u a) (dataFinal u a),
          e_customMetadata = customMetadata a\<rparr>
   \<and> errorOf H u a err =
       \<lparr>r_data = None, r_count = None,
        r_optimisticData = echoOptimistic (rowFinal u a) (dataFinal u a),
        r_optimisticCount = orNull (optimisticCount a),
        r_dataForSupabase = dataForSupabase a,
        r_action = mutationType a,
        r_summary = error (getMutationPhrases H (mutationType a)),
        r_status = ''error'',
        r_error = Some (builtError H u a err),
        r_customMetadata = customMetadata a\<rparr>
   \<and> (\<forall>ev \<in> set (trace (handleMutation H u (MutateRejects err) a)). \<not> isThrow ev)
   \<and> (\<forall>e. promiseOf (trace (handleMutation H u (MutateRejects err) a)) \<noteq> Rejected e)
   \<and> (callbackReturns (memoizedOnError H) (builtError H u a err) \<longrightarrow>
        promiseOf (trace (handleMutation H u (MutateRejects err) a)) =
          Fulfilled (if returnImmediately a then pendingOf H u a else errorOf H u a err))"
proof -
  let ?t = "trace (handleMutation H u (MutateRejects err) a)"
  let ?ph = "getMutationPhrases H (mutationType a)"
  have t0: "?t = SetIsMutating True #
     (if returnImmediately a then [Resolve (pendingOf H u a)] else [])
     @ [CallMutator call, CallMutate (optionsOf u a f)]
     @ catchHandler H ?ph a (rowFinal u a) (dataFinal u a) err"
    by (simp add: trace_dispatched [OF checks sel] settle_def)
  have t: "?t = SetIsMutating True #
     (if returnImmediately a then [Resolve (pendingOf H u a)] else [])
     @ [CallMutator call, CallMutate (optionsOf u a f)]
     @ (case memoizedOnError H of
          None \<Rightarrow> (if returnImmediately a then [] else [Resolve (errorOf H u a err)])
        | Some onError \<Rightarrow>
            OnError (builtError H u a err) #
              (case onError (builtError H u a err) of
                 Some thrown \<Rightarrow> [Unhandled thrown]
               | None \<Rightarrow> (if returnImmediately a then [] else [Resolve (errorOf H u a err)])))"
    unfolding t0
    by (simp add: catchHandler_def builtError_def errorOf_def Let_def
             split: option.splits)
  have built: "builtError H u a err =
       buildSupabaseProviderError H
         \<lparr>e_error = err,
          e_actionAttempted = mutationType a,
          e_summary = error (getMutationPhrases H (mutationType a)),
          e_dataForSupabase = dataForSupabase a,
          e_optimisticData = echoOptimistic (rowFinal u a) (dataFinal u a),
          e_customMetadata = customMetadata a\<rparr>"
    by (simp add: builtError_def providerError_def)
  have env: "errorOf H u a err =
       \<lparr>r_data = None, r_count = None,
        r_optimisticData = echoOptimistic (rowFinal u a) (dataFinal u a),
        r_optimisticCount = orNull (optimisticCount a),
        r_dataForSupabase = dataForSupabase a,
        r_action = mutationType a,
        r_summary = error (getMutationPhrases H (mutationType a)),
        r_status = ''error'',
        r_error = Some (builtError H u a err),
        r_customMetadata = customMetadata a\<rparr>"
    by (simp add: errorOf_def errorResult_def baseResult_def)
  have nothrow: "\<forall>ev \<in> set ?t. \<not> isThrow ev"
    unfolding t0
    using catchHandler_no_throw [of H ?ph a "rowFinal u a" "dataFinal u a" err]
    by (auto simp: isThrow_def)
  have norej: "\<forall>e. promiseOf ?t \<noteq> Rejected e"
    using promiseOf_never_rejected [OF nothrow] by blast
  have prom: "promiseOf ?t = Fulfilled (if returnImmediately a then pendingOf H u a
                                        else errorOf H u a err)"
    if "callbackReturns (memoizedOnError H) (builtError H u a err)"
  proof -
    let ?mid = "callbackEvent (memoizedOnError H) (OnError (builtError H u a err))"
    have "?t = SetIsMutating True #
          (if returnImmediately a then [Resolve (pendingOf H u a)] else [])
          @ [CallMutator call, CallMutate (optionsOf u a f)]
          @ ?mid
          @ (if returnImmediately a then [] else [Resolve (errorOf H u a err)])"
      using that settle_rejects_returns [of H ?ph a "rowFinal u a" "dataFinal u a" err]
      by (simp add: trace_dispatched [OF checks sel] builtError_def errorOf_def)
    moreover have "\<forall>x \<in> set ?mid. \<not> isResolve x \<and> \<not> isThrow x"
      by (rule callbackEvent_quiet) (simp_all add: isResolve_def isThrow_def)
    ultimately show ?thesis
      using promiseOf_dispatched [of ?mid "returnImmediately a" "pendingOf H u a" call
              "optionsOf u a f" "errorOf H u a err"]
      by simp
  qed
  show ?thesis
    using t built env nothrow norej prom by blast
qed

theorem rejection_reported_not_thrown_witness:
  "trace (handleMutation scenarioEnv ''u1'' (MutateRejects (JStr ''offline'')) scenarioArgs)
     = [SetIsMutating True,
        CallMutator (DeleteRowMutatorCall (Some (OneRow [(''id'', JNum 5)])) False),
        CallMutate \<lparr>o_optimisticFunc = ReturnUnchangedData, o_optimisticRowFinal = None,
                    o_populateCache = False, o_revalidate = True, o_rollbackOnError = True\<rparr>,
        OnError \<lparr>e_error = JStr ''offline'', e_actionAttempted = ''delete'',
                 e_summary = ''failed'',
                 e_dataForSupabase = Some (OneRow [(''id'', JNum 5)]),
                 e_optimisticData = None, e_customMetadata = None\<rparr>,
        Resolve
          \<lparr>r_data = None, r_count = None, r_optimisticData = None, r_optimisticCount = None,
           r_dataForSupabase = Some (OneRow [(''id'', JNum 5)]),
           r_action = ''delete'', r_summary = ''failed'', r_status = ''error'',
           r_error = Some \<lparr>e_error = JStr ''offline'', e_actionAttempted = ''delete'',
                            e_summary = ''failed'',
                            e_dataForSupabase = Some (OneRow [(''id'', JNum 5)]),
                            e_optimisticData = None, e_customMetadata = None\<rparr>,
           r_customMetadata = None\<rparr>]
   \<and> promiseOf (trace (handleMutation scenarioEnv ''u1'' (MutateRejects (JStr ''offline''))
                         scenarioArgs))
     = Fulfilled
         \<lparr>r_data = None, r_count = None, r_optimisticData = None, r_optimisticCount = None,
          r_dataForSupabase = Some (OneRow [(''id'', JNum 5)]),
          r_action = ''delete'', r_summary = ''failed'', r_status = ''error'',
          r_error = Some \<lparr>e_error = JStr ''offline'', e_actionAttempted = ''delete'',
                           e_summary = ''failed'',
                           e_dataForSupabase = Some (OneRow [(''id'', JNum 5)]),
                           e_optimisticData = None, e_customMetadata = None\<rparr>,
          r_customMetadata = None\<rparr>"
proof -
  have checks: "passesChecks scenarioEnv scenarioArgs"
    by (simp add: passesChecks_def validateSettings_def scenarioArgs_def)
  have sel: "dispatch ''u1'' scenarioArgs
               = Inr (DeleteRowMutatorCall (Some (OneRow [(''id'', JNum 5)])) False,
                      ReturnUnchangedData)"
    by (simp add: dispatch_def selectFunctions_def callMutatorFunction_def rowFinal_def
                  dataFinal_def materialize_def scenarioArgs_def)
  show ?thesis
    using rejection_reported_not_thrown [OF checks sel, of "JStr ''offline''"]
    by (simp add: callbackReturns_def optionsOf_def echoOptimistic_def orNull_def
                  builtError_def errorOf_def providerError_def errorResult_def baseResult_def
                  rowFinal_def dataFinal_def materialize_def scenarioArgs_def scenarioEnv_def
                  promiseOf_def)
qed

text \<open>
  C8 as stated does not hold for every rejection: when the error callback throws, the
  catch handler ends before \<^verbatim>\<open>resolve\<close>, and without immediate return the caller's
  promise stays unsettled.
\<close>

theorem rejection_reported_not_thrown_counterexample:
  "trace (handleMutation throwingEnv ''u1'' (MutateRejects (JStr ''offline'')) scenarioArgs)
     = [SetIsMutating True,
        CallMutator (DeleteRowMutatorCall (Some (OneRow [(''id'', JNum 5)])) False),
        CallMutate \<lparr>o_optimisticFunc = ReturnUnchangedData, o_optimisticRowFinal = None,
                    o_populateCache = False, o_revalidate = True, o_rollbackOnError = True\<rparr>,
        OnError \<lparr>e_error = JStr ''offline'', e_actionAttempted = ''delete'',
                 e_summary = ''failed'',
                 e_dataForSupabase = Some (OneRow [(''id'', JNum 5)]),
                 e_optimisticData = None, e_customMetadata = None\<rparr>,
        Unhandled (JStr ''handler failed'')]
   \<and> promiseOf (trace (handleMutation throwingEnv ''u1'' (MutateRejects (JStr ''offline''))
                         scenarioArgs))
     = Unsettled"
  by (simp add: handleMutation_def throwingEnv_def scenarioEnv_def scenarioArgs_def
                validateSettings_def clearEmptyFlexible_def clearEmptyRpc_def materialize_def
                resolveImmediately_def runMutation_def selectFunctions_def
                callMutatorFunction_def settle_def catchHandler_def providerError_def
                echoOptimistic_def promiseOf_def Let_def)

section \<open>The coordinator: speculative inputs and the requested operation\<close>

lemma clearEmpty_flexible_same:
  "clearEmptyFlexible (Some (s\<lparr>optimisticOperation := Some ''''\<rparr>))
     = clearEmptyFlexible (Some (s\<lparr>optimisticOperation := None\<rparr>))"
  by (simp add: clearEmptyFlexible_def emptyToUndefined_def)

lemma clearEmpty_rpc_same:
  "clearEmptyRpc (Some (s\<lparr>rpc_optimisticOperation := Some ''''\<rparr>))
     = clearEmptyRpc (Some (s\<lparr>rpc_optimisticOperation := None\<rparr>))"
  by (simp add: clearEmptyRpc_def emptyToUndefined_def)

lemma envelope_fields_unread:
  "pendingResult ph (a\<lparr>flexibleMutationSettings := fs\<rparr>) rf df = pendingResult ph a rf df"
  "pendingResult ph (a\<lparr>rpcSettings := rs\<rparr>) rf df = pendingResult ph a rf df"
  "successResult ph (a\<lparr>flexibleMutationSettings := fs\<rparr>) rf df response
     = successResult ph a rf df response"
  "successResult ph (a\<lparr>rpcSettings := rs\<rparr>) rf df response = successResult ph a rf df response"
  "errorResult ph (a\<lparr>flexibleMutationSettings := fs\<rparr>) rf df perr = errorResult ph a rf df perr"
  "errorResult ph (a\<lparr>rpcSettings := rs\<rparr>) rf df perr = errorResult ph a rf df perr"
  "providerError H ph (a\<lparr>flexibleMutationSettings := fs\<rparr>) rf df err
     = providerError H ph a rf df err"
  "providerError H ph (a\<lparr>rpcSettings := rs\<rparr>) rf df err = providerError H ph a rf df err"
  by (simp_all add: pendingResult_def successResult_def errorResult_def providerError_def
                    baseResult_def)

lemma catchHandler_fields_unread:
  "catchHandler H ph (a\<lparr>flexibleMutationSettings := fs\<rparr>) rf df err
     = catchHandler H ph a rf df err"
  "catchHandler H ph (a\<lparr>rpcSettings := rs\<rparr>) rf df err = catchHandler H ph a rf df err"
  by (simp_all add: catchHandler_def envelope_fields_unread Let_def
               cong: option.case_cong if_cong)

lemma settings_fields_unread:
  "validateSettings H (a\<lparr>flexibleMutationSettings := fs\<rparr>) x y = validateSettings H a x y"
  "validateSettings H (a\<lparr>rpcSettings := rs\<rparr>) x y = validateSettings H a x y"
  "resolveImmediately ph (a\<lparr>flexibleMutationSettings := fs\<rparr>) rf df
     = resolveImmediately ph a rf df"
  "resolveImmediately ph (a\<lparr>rpcSettings := rs\<rparr>) rf df = resolveImmediately ph a rf df"
  "settle H ph (a\<lparr>flexibleMutationSettings := fs\<rparr>) rf df outcome = settle H ph a rf df outcome"
  "settle H ph (a\<lparr>rpcSettings := rs\<rparr>) rf df outcome = settle H ph a rf df outcome"
  by (simp_all add: validateSettings_def resolveImmediately_def settle_def
                    envelope_fields_unread catchHandler_fields_unread
               cong: option.case_cong if_cong mutateOutcome.case_cong)

lemma runMutation_settings_unread:
  "runMutation H ph x y (a\<lparr>flexibleMutationSettings := fs\<rparr>) rf df outcome
     = runMutation H ph x y a rf df outcome"
  "runMutation H ph x y (a\<lparr>rpcSettings := rs\<rparr>) rf df outcome
     = runMutation H ph x y a rf df outcome"
  by (simp_all add: runMutation_def settings_fields_unread
               cong: sum.case_cong prod.case_cong split: sum.splits prod.splits)

lemma handleMutation_flexible_settings_only_cleared:
  "clearEmptyFlexible fs = clearEmptyFlexible fs' \<Longrightarrow>
   handleMutation H u outcome (a\<lparr>flexibleMutationSettings := fs\<rparr>)
     = handleMutation H u outcome (a\<lparr>flexibleMutationSettings := fs'\<rparr>)"
  by (simp add: handleMutation_def settings_fields_unread runMutation_settings_unread Let_def
           cong: option.case_cong if_cong prod.case_cong)

lemma handleMutation_rpc_settings_only_cleared:
  "clearEmptyRpc rs = clearEmptyRpc rs' \<Longrightarrow>
   handleMutation H u outcome (a\<lparr>rpcSettings := rs\<rparr>)
     = handleMutation H u outcome (a\<lparr>rpcSettings := rs'\<rparr>)"
  by (simp add: handleMutation_def settings_fields_unread runMutation_settings_unread Let_def
           cong: option.case_cong if_cong prod.case_cong)

lemma unset_operation_selects_identity:
  assumes reach: "CallMutate opts \<in> set (trace (handleMutation H u outcome a))"
    and unset: "(mutationType a = ''flexibleMutation'' \<and>
                   (case clearEmptyFlexible (flexibleMutationSettings a) of
                      None \<Rightarrow> None | Some s \<Rightarrow> optimisticOperation s) = None)
                \<or> (mutationType a = ''rpc'' \<and>
                   (case clearEmptyRpc (rpcSettings a) of
                      None \<Rightarrow> None | Some s \<Rightarrow> rpc_optimisticOperation s) = None)"
  shows "o_optimisticFunc opts = ReturnUnchangedData"
proof -
  from mutate_reached [OF reach]
  obtain call where "runMutation H (getMutationPhrases H (mutationType a))
                    (clearEmptyFlexible (flexibleMutationSettings a))
                    (clearEmptyRpc (rpcSettings a)) a (rowFinal u a) (dataFinal u a) outcome
                  = [CallMutator call, CallMutate opts]
                    @ settle H (getMutationPhrases H (mutationType a)) a
                        (rowFinal u a) (dataFinal u a) outcome"
    by blast
  then show ?thesis
    using unset
    by (auto simp: runMutation_def selectFunctions_def chooseOptimisticFunction_def
             split: sum.splits prod.splits if_splits)
qed

text \<open>
  C9. A call with the optimistic operation of the flexible settings (or of the rpc
  settings) given as the empty string runs exactly as the same call with the operation
  undefined: same steps, same envelopes, same settings objects afterwards; and when such
  a flexible or rpc call reaches \<^verbatim>\<open>mutate\<close>, the function chosen is
  \<^verbatim>\<open>returnUnchangedData\<close>.
\<close>

theorem empty_string_operation_is_unset:
  "handleMutation H u outcome
       (a\<lparr>flexibleMutationSettings := Some (fs\<lparr>optimisticOperation := Some ''''\<rparr>)\<rparr>)
     = handleMutation H u outcome
         (a\<lparr>flexibleMutationSettings := Some (fs\<lparr>optimisticOperation := None\<rparr>)\<rparr>)
   \<and> handleMutation H u outcome
         (a\<lparr>rpcSettings := Some (rs\<lparr>rpc_optimisticOperation := Some ''''\<rparr>)\<rparr>)
     = handleMutation H u outcome
         (a\<lparr>rpcSettings := Some (rs\<lparr>rpc_optimisticOperation := None\<rparr>)\<rparr>)
   \<and> (mutationType a = ''flexibleMutation'' \<and>
        CallMutate opts \<in> set (trace (handleMutation H u outcome
           (a\<lparr>flexibleMutationSettings := Some (fs\<lparr>optimisticOperation := Some ''''\<rparr>)\<rparr>)))
        \<longrightarrow> o_optimisticFunc opts = ReturnUnchangedData)
   \<and> (mutationType a = ''rpc'' \<and>
        CallMutate opts \<in> set (trace (handleMutation H u outcome
           (a\<lparr>rpcSettings := Some (rs\<lparr>rpc_optimisticOperation := Some ''''\<rparr>)\<rparr>)))
        \<longrightarrow> o_optimisticFunc opts = ReturnUnchangedData)"
proof (intro conjI impI)
  show "handleMutation H u outcome
       (a\<lparr>flexibleMutationSettings := Some (fs\<lparr>optimisticOperation := Some ''''\<rparr>)\<rparr>)
     = handleMutation H u outcome
         (a\<lparr>flexibleMutationSettings := Some (fs\<lparr>optimisticOperation := None\<rparr>)\<rparr>)"
    by (rule handleMutation_flexible_settings_only_cleared) (rule clearEmpty_flexible_same)
next
  show "handleMutation H u outcome
         (a\<lparr>rpcSettings := Some (rs\<lparr>rpc_optimisticOperation := Some ''''\<rparr>)\<rparr>)
     = handleMutation H u outcome
         (a\<lparr>rpcSettings := Some (rs\<lparr>rpc_optimisticOperation := None\<rparr>)\<rparr>)"
    by (rule handleMutation_rpc_settings_only_cleared) (rule clearEmpty_rpc_same)
next
  assume h: "mutationType a = ''flexibleMutation'' \<and>
        CallMutate opts \<in> set (trace (handleMutation H u outcome
           (a\<lparr>flexibleMutationSettings := Some (fs\<lparr>optimisticOperation := Some ''''\<rparr>)\<rparr>)))"
  show "o_optimisticFunc opts = ReturnUnchangedData"
    using h
    by (intro unset_operation_selects_identity
          [where a = "a\<lparr>flexibleMutationSettings := Some (fs\<lparr>optimisticOperation := Some ''''\<rparr>)\<rparr>"
             and H = H and u = u and outcome = outcome])
       (simp_all add: clearEmptyFlexible_def emptyToUndefined_def)
next
  assume h: "mutationType a = ''rpc'' \<and>
        CallMutate opts \<in> set (trace (handleMutation H u outcome
           (a\<lparr>rpcSettings := Some (rs\<lparr>rpc_optimisticOperation := Some ''''\<rparr>)\<rparr>)))"
  show "o_optimisticFunc opts = ReturnUnchangedData"
    using h
    by (intro unset_operation_selects_identity
          [where a = "a\<lparr>rpcSettings := Some (rs\<lparr>rpc_optimisticOperation := Some ''''\<rparr>)\<rparr>"
             and H = H and u = u and outcome = outcome])
       (simp_all add: clearEmptyRpc_def emptyToUndefined_def)
qed

theorem empty_string_operation_is_unset_witness:
  "mutationType (scenarioArgs\<lparr>mutationType := ''flexibleMutation''\<rparr>) = ''flexibleMutation''
   \<and> CallMutate \<lparr>o_optimisticFunc = ReturnUnchangedData, o_optimisticRowFinal = None,
                  o_populateCache = False, o_revalidate = True, o_rollbackOnError = True\<rparr>
       \<in> set (trace (handleMutation scenarioEnv ''u1'' MutateNeverSettles
            (scenarioArgs\<lparr>mutationType := ''flexibleMutation'',
               flexibleMutationSettings :=
                 Some \<lparr>tableName = ''people'', operation = ''update'', filters = None,
                        optimisticOperation = Some ''''\<rparr>\<rparr>)))
   \<and> handleMutation scenarioEnv ''u1'' MutateNeverSettles
            (scenarioArgs\<lparr>mutationType := ''flexibleMutation'',
               flexibleMutationSettings :=
                 Some \<lparr>tableName = ''people'', operation = ''update'', filters = None,
                        optimisticOperation = Some ''''\<rparr>\<rparr>)
     = handleMutation scenarioEnv ''u1'' MutateNeverSettles
            (scenarioArgs\<lparr>mutationType := ''flexibleMutation'',
               flexibleMutationSettings :=
                 Some \<lparr>tableName = ''people'', operation = ''update'', filters = None,
                        optimisticOperation = None\<rparr>\<rparr>)"
  using empty_string_operation_is_unset [where H = scenarioEnv and u = "''u1''"
          and outcome = MutateNeverSettles
          and a = "scenarioArgs\<lparr>mutationType := ''flexibleMutation''\<rparr>"
          and fs = "\<lparr>tableName = ''people'', operation = ''update'', filters = None,
                      optimisticOperation = None\<rparr>"
          and rs = "\<lparr>rpcName = ''f'', rpc_optimisticOperation = None\<rparr>"
          and opts = "\<lparr>o_optimisticFunc = ReturnUnchangedData, o_optimisticRowFinal = None,
                  o_populateCache = False, o_revalidate = True, o_rollbackOnError = True\<rparr>"]
  by (simp add: scenarioArgs_def scenarioEnv_def handleMutation_def validateSettings_def
                clearEmptyFlexible_def clearEmptyRpc_def emptyToUndefined_def materialize_def
                resolveImmediately_def runMutation_def selectFunctions_def
                chooseOptimisticFunction_def callMutatorFunction_def settle_def Let_def)




end
